theory Spec2Isabelle
  imports Main "HOL-Library.Sublist"
begin

section \<open>Strings and values of the host language\<close>

text \<open>
  A string is a \<^typ>\<open>string\<close>: the list of the bytes of its UTF-8 encoding, which is what
  reaches the output streams. The glyphs of the progress lines are written as their
  UTF-8 bytes.
\<close>

definition glyphWrench :: string where
  "glyphWrench = [CHR 0xF0, CHR 0x9F, CHR 0x94, CHR 0xA7]"

definition glyphCheck :: string where
  "glyphCheck = [CHR 0xE2, CHR 0x9C, CHR 0x85]"

definition glyphClipboard :: string where
  "glyphClipboard = [CHR 0xF0, CHR 0x9F, CHR 0x93, CHR 0x8B]"

definition glyphCross :: string where
  "glyphCross = [CHR 0xE2, CHR 0x9D, CHR 0x8C]"

definition glyphWarning :: string where
  "glyphWarning = [CHR 0xE2, CHR 0x9A, CHR 0xA0, CHR 0xEF, CHR 0xB8, CHR 0x8F]"

text \<open>
  \<^verbatim>\<open>String.prototype.trim\<close> removes the white space and line terminators of ECMAScript
  from both ends. In UTF-8 they are the byte sequences below: U+0009 to U+000D, U+0020,
  U+00A0, U+1680, U+2000 to U+200A, U+2028, U+2029, U+202F, U+205F, U+3000 and U+FEFF.
\<close>

definition whiteSpace :: "string list" where
  "whiteSpace =
     [[CHR 0x09], [CHR 0x0A], [CHR 0x0B], [CHR 0x0C], [CHR 0x0D], [CHR 0x20],
      [CHR 0xC2, CHR 0xA0],
      [CHR 0xE1, CHR 0x9A, CHR 0x80],
      [CHR 0xE2, CHR 0x80, CHR 0x80], [CHR 0xE2, CHR 0x80, CHR 0x81],
      [CHR 0xE2, CHR 0x80, CHR 0x82], [CHR 0xE2, CHR 0x80, CHR 0x83],
      [CHR 0xE2, CHR 0x80, CHR 0x84], [CHR 0xE2, CHR 0x80, CHR 0x85],
      [CHR 0xE2, CHR 0x80, CHR 0x86], [CHR 0xE2, CHR 0x80, CHR 0x87],
      [CHR 0xE2, CHR 0x80, CHR 0x88], [CHR 0xE2, CHR 0x80, CHR 0x89],
      [CHR 0xE2, CHR 0x80, CHR 0x8A],
      [CHR 0xE2, CHR 0x80, CHR 0xA8], [CHR 0xE2, CHR 0x80, CHR 0xA9],
      [CHR 0xE2, CHR 0x80, CHR 0xAF],
      [CHR 0xE2, CHR 0x81, CHR 0x9F],
      [CHR 0xE3, CHR 0x80, CHR 0x80],
      [CHR 0xEF, CHR 0xBB, CHR 0xBF]]"

function stripLeading :: "string list \<Rightarrow> string \<Rightarrow> string" where
  "stripLeading toks s =
     (case find (\<lambda>w. w \<noteq> [] \<and> prefix w s) toks of
        None \<Rightarrow> s
      | Some w \<Rightarrow> stripLeading toks (drop (length w) s))"
  by pat_completeness auto
termination
  by (relation "measure (\<lambda>(toks, s). length s)") (auto simp: find_Some_iff prefix_def)

declare stripLeading.simps [simp del]

definition trim :: "string \<Rightarrow> string" where
  "trim s = rev (stripLeading (map rev whiteSpace) (rev (stripLeading whiteSpace s)))"

text \<open>\<^verbatim>\<open>haystack.includes(needle)\<close>: the needle occurs as a contiguous run.\<close>

fun includesStr :: "string \<Rightarrow> string \<Rightarrow> bool" where
  "includesStr [] needle = (needle = [])"
| "includesStr (c # cs) needle = (prefix needle (c # cs) \<or> includesStr cs needle)"

text \<open>\<^verbatim>\<open>Array.prototype.join\<close> on strings.\<close>

fun join :: "string \<Rightarrow> string list \<Rightarrow> string" where
  "join sep [] = []"
| "join sep [x] = x"
| "join sep (x # y # ys) = x @ sep @ join sep (y # ys)"

text \<open>The decimal text of a non-negative integer, as a template literal renders it.\<close>

definition digitChar :: "nat \<Rightarrow> char" where
  "digitChar d = ''0123456789'' ! d"

fun showNat :: "nat \<Rightarrow> string" where
  "showNat n = (if n < 10 then [digitChar n] else showNat (n div 10) @ [digitChar (n mod 10)])"

declare showNat.simps [simp del]

text \<open>
  The value of a tool argument, as far as the formatter tells values apart: a string, an
  object or array (carrying the text \<^verbatim>\<open>JSON.stringify\<close> gives for it), or anything else
  (numbers, booleans, \<^verbatim>\<open>null\<close>, \<^verbatim>\<open>undefined\<close>; carrying the text a template literal
  gives for it).
\<close>

datatype js_value = JsString string | JsObject string | JsOther string

type_synonym js_record = "(string \<times> js_value) list"

section \<open>Data of the model client and of the tool dispatcher\<close>

text \<open>
  A part of a content: its optional text, its thought marker (absent reads as false), and
  whatever else it carries (a function response, inline data), which the driver never
  inspects.
\<close>

record part =
  "text" :: "string option"
  thought :: bool
  otherContent :: string

record content =
  role :: string
  parts :: "part list option"

record candidate =
  cand_content :: "content option"

record function_call =
  fc_id :: "string option"
  fc_name :: "string option"
  fc_args :: "js_record option"

record generate_content_response =
  candidates :: "candidate list option"
  functionCalls :: "function_call list option"

section \<open>Response text extraction\<close>

definition truthyText :: "part \<Rightarrow> bool" where
  "truthyText p = (case text p of None \<Rightarrow> False | Some t \<Rightarrow> t \<noteq> [])"

definition textOf :: "part \<Rightarrow> string" where
  "textOf p = (case text p of None \<Rightarrow> [] | Some t \<Rightarrow> t)"

definition getResponseText :: "generate_content_response \<Rightarrow> string option" where
  "getResponseText response =
     (case candidates response of
        None \<Rightarrow> None
      | Some [] \<Rightarrow> None
      | Some (cand # _) \<Rightarrow>
          (case cand_content cand of
             None \<Rightarrow> None
           | Some c \<Rightarrow>
               (case parts c of
                  None \<Rightarrow> None
                | Some [] \<Rightarrow> None
                | Some (thoughtPart # rest) \<Rightarrow>
                    if thought thoughtPart then None
                    else Some (join [] (map textOf (filter truthyText (thoughtPart # rest)))))))"

section \<open>Tool-call argument formatting\<close>

definition formatArg :: "string \<times> js_value \<Rightarrow> string" where
  "formatArg kv =
     (case kv of (key, v) \<Rightarrow>
        (case v of
           JsString s \<Rightarrow> key @ '': '' @ [CHR 0x22] @ s @ [CHR 0x22]
         | JsObject json \<Rightarrow> key @ '': '' @ json
         | JsOther t \<Rightarrow> key @ '': '' @ t))"

definition formatToolArgs :: "js_record option \<Rightarrow> string" where
  "formatToolArgs args =
     (case args of
        None \<Rightarrow> ''(no arguments)''
      | Some kvs \<Rightarrow>
          if length kvs = 0 then ''(no arguments)''
          else ''('' @ join '', '' (map formatArg kvs) @ '')'')"

section \<open>The tool dispatcher's data\<close>

datatype tool_result_display =
    DisplayString string
  | FileDiff (fileDiff: string) (fileName: string)
  | DisplayOther

record tool_error =
  message :: string

datatype part_union = PartString string | PartObject part | PartNullish

datatype part_list_union = PartSingle part_union | PartArray "part_union list"

record tool_call_response =
  error :: "tool_error option"
  resultDisplay :: "tool_result_display option"
  responseParts :: "part_list_union option"

record tool_call_request_info =
  callId :: string
  name :: "string option"
  args :: js_record
  isClientInitiated :: bool
  prompt_id :: string

section \<open>The environment and the state of a run\<close>

text \<open>
  What the driver does to the outside world, in order: writes to standard output, lines
  given to \<^verbatim>\<open>console.error\<close>, requests to the model client, calls of the tool
  dispatcher (the request together with what the dispatcher answered or threw), and the
  shutdown of telemetry.
\<close>

text \<open>A thrown value, as far as the driver looks at it: it is only formatted and printed.\<close>

type_synonym thrown = string

datatype event =
    StdoutWrite string
  | ConsoleError string
  | SendMessageStream "part list"
  | ExecuteToolCall tool_call_request_info "thrown + tool_call_response"
  | ShutdownTelemetry

datatype stream_item = Chunk generate_content_response | StreamError thrown

text \<open>
  The collaborators are scripted. What a collaborator answers depends on its arguments and
  on the time, which is the number of answers the driver has taken from the outside so
  far (a clock reading, a stream, a stream item, a tool response). What the loop reads
  from the cancellation signal at a given time is the field \<open>aborted\<close>: a parameter of
  the loop, which a run fixes (see \<open>runNonInteractive\<close>).
\<close>

record env =
  getMaxSessionTurns :: int
  sendMessageStream :: "nat \<Rightarrow> part list \<Rightarrow> string \<Rightarrow> thrown + stream_item list"
  aborted :: "nat \<Rightarrow> bool"
  executeToolCall :: "nat \<Rightarrow> tool_call_request_info \<Rightarrow> thrown + tool_call_response"
  dateNow :: "nat \<Rightarrow> nat"
  toLocaleTimeString :: "nat \<Rightarrow> string"
  parseAndFormatApiError :: "thrown \<Rightarrow> string"
  isTelemetrySdkInitialized :: bool

record state =
  turnCount :: nat
  currentMessages :: "content list"
  events :: "event list"
  time :: nat

definition emit :: "event \<Rightarrow> state \<Rightarrow> state" where
  "emit e st = st\<lparr>events := events st @ [e]\<rparr>"

definition tick :: "state \<Rightarrow> state" where
  "tick st = st\<lparr>time := Suc (time st)\<rparr>"

text \<open>\<^verbatim>\<open>process.stdout.write\<close> and \<^verbatim>\<open>console.error\<close>.\<close>

definition stdoutWrite :: "string \<Rightarrow> state \<Rightarrow> state" where
  "stdoutWrite s st = emit (StdoutWrite s) st"

definition consoleError :: "string \<Rightarrow> state \<Rightarrow> state" where
  "consoleError s st = emit (ConsoleError s) st"

text \<open>
  How a piece of the driver ends: it goes on with a value, the function returns, the
  process exits with a status, or a value is thrown.
\<close>

datatype 'a control = Proceed 'a | Returned state | Exited nat state | Thrown thrown state

datatype outcome = Resolved | ProcessExit nat

section \<open>Tool-call progress lines\<close>

datatype status = Start | Success | Error | OtherStatus string

definition newline :: string where
  "newline = [CHR 0x0A]"

definition truthyDisplay :: "tool_result_display option \<Rightarrow> bool" where
  "truthyDisplay rd =
     (case rd of None \<Rightarrow> False | Some (DisplayString s) \<Rightarrow> s \<noteq> [] | Some _ \<Rightarrow> True)"

definition undefinedOr :: "string option \<Rightarrow> string" where
  "undefinedOr s = (case s of None \<Rightarrow> ''undefined'' | Some t \<Rightarrow> t)"

definition displayToolCallInfo ::
  "env \<Rightarrow> string \<Rightarrow> js_record \<Rightarrow> status \<Rightarrow> tool_result_display option \<Rightarrow> string option \<Rightarrow>
   state \<Rightarrow> state" where
  "displayToolCallInfo env toolName args' status' resultDisplay' errorMessage st0 =
     (let timestamp = toLocaleTimeString env (dateNow env (time st0));
          st = tick st0;
          argsStr = formatToolArgs (Some args');
          completed = ''['' @ timestamp @ ''] '' @ glyphCheck @ '' Tool '' @ toolName
                      @ '' completed successfully''
      in case status' of
           Start \<Rightarrow>
             stdoutWrite (newline @ ''['' @ timestamp @ ''] '' @ glyphWrench
                     @ '' Executing tool: '' @ toolName @ '' '' @ argsStr @ newline) st
         | Success \<Rightarrow>
             if truthyDisplay resultDisplay' then
               (case resultDisplay' of
                  Some (DisplayString s) \<Rightarrow>
                    if trim s \<noteq> [] then
                      stdoutWrite (glyphClipboard @ '' Result:'' @ newline @ s @ newline)
                        (stdoutWrite (completed @ newline) st)
                    else stdoutWrite (completed @ '' (no output)'' @ newline) st
                | Some (FileDiff diff file) \<Rightarrow>
                    stdoutWrite (glyphClipboard @ '' Diff:'' @ newline @ diff @ newline)
                      (stdoutWrite (glyphClipboard @ '' File: '' @ file @ newline)
                        (stdoutWrite (completed @ newline) st))
                | _ \<Rightarrow> stdoutWrite (completed @ '' (no output)'' @ newline) st)
             else stdoutWrite (completed @ '' (no output)'' @ newline) st
         | Error \<Rightarrow>
             stdoutWrite (''['' @ timestamp @ ''] '' @ glyphCross @ '' Tool '' @ toolName
                     @ '' failed: '' @ undefinedOr errorMessage @ newline) st
         | OtherStatus other \<Rightarrow>
             stdoutWrite (''['' @ timestamp @ ''] '' @ glyphWarning @ '' Tool '' @ toolName
                     @ '' reported unknown status: '' @ other @ newline) st)"

section \<open>The turn loop\<close>

definition maxTurnsMessage :: string where
  "maxTurnsMessage = newline @
     '' Reached max session turns for this session. Increase the number of turns by specifying maxSessionTurns in settings.json.''"

subsection \<open>Consuming the stream of one turn\<close>

text \<open>The body of the \<^verbatim>\<open>for await\<close> loop after the cancellation check.\<close>

definition processChunk ::
  "generate_content_response \<Rightarrow> function_call list \<times> state \<Rightarrow> function_call list \<times> state" where
  "processChunk resp acc =
     (case acc of (calls, st0) \<Rightarrow>
        (let textPart = getResponseText resp;
             st = (case textPart of
                     None \<Rightarrow> st0
                   | Some t \<Rightarrow> if t \<noteq> [] then stdoutWrite t st0 else st0);
             calls = (case functionCalls resp of
                        None \<Rightarrow> calls
                      | Some fcs \<Rightarrow> calls @ fcs)
         in (calls, st)))"

text \<open>
  The \<^verbatim>\<open>for await\<close> loop: each item is taken from the stream (one tick, also for
  finding the stream at its end), and a stream may throw instead of giving an item. The
  signal is read once the item is there, before anything is done with it.
\<close>

fun consumeStream ::
  "env \<Rightarrow> stream_item list \<Rightarrow> function_call list \<times> state \<Rightarrow> (function_call list \<times> state) control" where
  "consumeStream env [] acc = (case acc of (calls, st) \<Rightarrow> Proceed (calls, tick st))"
| "consumeStream env (StreamError e # rest) acc = (case acc of (calls, st) \<Rightarrow> Thrown e (tick st))"
| "consumeStream env (Chunk resp # rest) acc =
     (case acc of (calls, st0) \<Rightarrow>
        (let st = tick st0 in
         if aborted env (time st) then Returned (consoleError ''Operation cancelled.'' st)
         else consumeStream env rest (processChunk resp (calls, st))))"

subsection \<open>Dispatching one accumulated call\<close>

definition nameText :: "function_call \<Rightarrow> string" where
  "nameText fc = undefinedOr (fc_name fc)"

definition argsOrEmpty :: "function_call \<Rightarrow> js_record" where
  "argsOrEmpty fc = (case fc_args fc of None \<Rightarrow> [] | Some a \<Rightarrow> a)"

text \<open>\<^verbatim>\<open>fc.id ?? `${fc.name}-${Date.now()}`\<close>: the clock is read only when the id is absent.\<close>

definition makeCallId :: "env \<Rightarrow> function_call \<Rightarrow> state \<Rightarrow> string \<times> state" where
  "makeCallId env fc st =
     (case fc_id fc of
        Some i \<Rightarrow> (i, st)
      | None \<Rightarrow> (nameText fc @ ''-'' @ showNat (dateNow env (time st)), tick st))"

text \<open>
  \<^verbatim>\<open>typeof toolResponse.resultDisplay === 'string' ? toolResponse.resultDisplay
  : toolResponse.error?.message\<close>
\<close>

definition errorMessageOf :: "tool_call_response \<Rightarrow> tool_error \<Rightarrow> string" where
  "errorMessageOf toolResponse err =
     (case resultDisplay toolResponse of
        Some (DisplayString s) \<Rightarrow> s
      | _ \<Rightarrow> message err)"

text \<open>
  \<^verbatim>\<open>${toolResponse.resultDisplay || toolResponse.error.message}\<close>: an object in a
  template literal reads \<^verbatim>\<open>[object Object]\<close>.
\<close>

definition displayOrMessage :: "tool_call_response \<Rightarrow> tool_error \<Rightarrow> string" where
  "displayOrMessage toolResponse err =
     (if truthyDisplay (resultDisplay toolResponse) then
        (case resultDisplay toolResponse of
           Some (DisplayString s) \<Rightarrow> s
         | _ \<Rightarrow> ''[object Object]'')
      else message err)"

definition truthyPart :: "part_union \<Rightarrow> bool" where
  "truthyPart p = (case p of PartString s \<Rightarrow> s \<noteq> [] | PartObject _ \<Rightarrow> True | PartNullish \<Rightarrow> False)"

definition textPart :: "string \<Rightarrow> part" where
  "textPart s = \<lparr>text = Some s, thought = False, otherContent = []\<rparr>"

text \<open>The inner loop over the response parts: a string is wrapped, a falsy entry is skipped.\<close>

fun pushParts :: "part_union list \<Rightarrow> part list \<Rightarrow> part list" where
  "pushParts [] toolResponseParts = toolResponseParts"
| "pushParts (PartString s # ps) toolResponseParts = pushParts ps (toolResponseParts @ [textPart s])"
| "pushParts (PartObject p # ps) toolResponseParts = pushParts ps (toolResponseParts @ [p])"
| "pushParts (PartNullish # ps) toolResponseParts = pushParts ps toolResponseParts"

definition appendResponseParts :: "tool_call_response \<Rightarrow> part list \<Rightarrow> part list" where
  "appendResponseParts toolResponse toolResponseParts =
     (case responseParts toolResponse of
        None \<Rightarrow> toolResponseParts
      | Some (PartArray ps) \<Rightarrow> pushParts ps toolResponseParts
      | Some (PartSingle p) \<Rightarrow>
          if truthyPart p then pushParts [p] toolResponseParts else toolResponseParts)"

text \<open>The request built for an accumulated call.\<close>

definition buildRequest ::
  "env \<Rightarrow> string \<Rightarrow> function_call \<Rightarrow> state \<Rightarrow> tool_call_request_info \<times> state" where
  "buildRequest env pid fc st0 =
     (case makeCallId env fc st0 of (cid, st1) \<Rightarrow>
        (\<lparr>callId = cid, name = fc_name fc, args = argsOrEmpty fc,
          isClientInitiated = False, prompt_id = pid\<rparr>, st1))"

text \<open>
  What the driver does with the dispatcher's response before it looks at the response
  parts: the error branch with its \<^verbatim>\<open>process.exit(1)\<close>, or the success branch.
\<close>

definition reportResponse :: "env \<Rightarrow> function_call \<Rightarrow> tool_call_response \<Rightarrow> state \<Rightarrow> state control" where
  "reportResponse env fc toolResponse st0 =
     (case error toolResponse of
        Some err \<Rightarrow>
          (let errorMessage = errorMessageOf toolResponse err;
               st1 = displayToolCallInfo env (nameText fc) (argsOrEmpty fc) Error None
                       (Some errorMessage) st0;
               isToolNotFound = includesStr (message err) ''not found in registry'';
               st2 = consoleError (''Error executing tool '' @ nameText fc @ '': ''
                       @ displayOrMessage toolResponse err) st1
           in if \<not> isToolNotFound then Exited 1 st2 else Proceed st2)
      | None \<Rightarrow>
          Proceed (displayToolCallInfo env (nameText fc) (argsOrEmpty fc) Success
                     (resultDisplay toolResponse) None st0))"

text \<open>The body of the loop over the accumulated calls.\<close>

definition dispatchCall ::
  "env \<Rightarrow> string \<Rightarrow> function_call \<Rightarrow> part list \<times> state \<Rightarrow> (part list \<times> state) control" where
  "dispatchCall env pid fc acc =
     (case acc of (toolResponseParts, st0) \<Rightarrow>
        (case buildRequest env pid fc st0 of (requestInfo, st1) \<Rightarrow>
           (let st2 = displayToolCallInfo env (nameText fc) (argsOrEmpty fc) Start None None st1;
                answer = executeToolCall env (time st2) requestInfo;
                st3 = tick (emit (ExecuteToolCall requestInfo answer) st2)
            in case answer of
                 Inl e \<Rightarrow> Thrown e st3
               | Inr toolResponse \<Rightarrow>
                   (case reportResponse env fc toolResponse st3 of
                      Proceed st4 \<Rightarrow>
                        Proceed (appendResponseParts toolResponse toolResponseParts, st4)
                    | Returned st \<Rightarrow> Returned st
                    | Exited code st \<Rightarrow> Exited code st
                    | Thrown e st \<Rightarrow> Thrown e st))))"

fun dispatchCalls ::
  "env \<Rightarrow> string \<Rightarrow> function_call list \<Rightarrow> part list \<times> state \<Rightarrow> (part list \<times> state) control" where
  "dispatchCalls env pid [] acc = Proceed acc"
| "dispatchCalls env pid (fc # rest) acc =
     (case dispatchCall env pid fc acc of
        Proceed acc' \<Rightarrow> dispatchCalls env pid rest acc'
      | Returned st \<Rightarrow> Returned st
      | Exited code st \<Rightarrow> Exited code st
      | Thrown e st \<Rightarrow> Thrown e st)"

subsection \<open>One iteration of the loop, and the loop\<close>

definition firstMessageParts :: "content list \<Rightarrow> part list" where
  "firstMessageParts msgs =
     (case msgs of
        [] \<Rightarrow> []
      | m # _ \<Rightarrow> (case parts m of None \<Rightarrow> [] | Some ps \<Rightarrow> ps))"

definition userTurn :: "part list \<Rightarrow> content" where
  "userTurn ps = \<lparr>role = ''user'', parts = Some ps\<rparr>"

text \<open>The request to the model client and the consumption of its stream.\<close>

definition requestTurn :: "env \<Rightarrow> string \<Rightarrow> state \<Rightarrow> (function_call list \<times> state) control" where
  "requestTurn env pid st0 =
     (let msg = firstMessageParts (currentMessages st0);
          st1 = emit (SendMessageStream msg) st0
      in case sendMessageStream env (time st1) msg pid of
           Inl e \<Rightarrow> Thrown e (tick st1)
         | Inr responseStream \<Rightarrow> consumeStream env responseStream ([], tick st1))"

text \<open>What follows the stream: the dispatch of the accumulated calls, or the end.\<close>

definition dispatchTurn :: "env \<Rightarrow> string \<Rightarrow> function_call list \<Rightarrow> state \<Rightarrow> state control" where
  "dispatchTurn env pid calls st0 =
     (if length calls > 0 then
        (case dispatchCalls env pid calls ([], st0) of
           Proceed (toolResponseParts, st1) \<Rightarrow>
             Proceed (st1\<lparr>currentMessages := [userTurn toolResponseParts]\<rparr>)
         | Returned st \<Rightarrow> Returned st
         | Exited code st \<Rightarrow> Exited code st
         | Thrown e st \<Rightarrow> Thrown e st)
      else Returned (stdoutWrite newline st0))"

definition turn :: "env \<Rightarrow> string \<Rightarrow> state \<Rightarrow> state control" where
  "turn env pid st0 =
     (let st1 = st0\<lparr>turnCount := turnCount st0 + 1\<rparr> in
      if getMaxSessionTurns env > 0 \<and> int (turnCount st1) > getMaxSessionTurns env then
        Returned (consoleError maxTurnsMessage st1)
      else
        (case requestTurn env pid st1 of
           Proceed (calls, st2) \<Rightarrow> dispatchTurn env pid calls st2
         | Returned st \<Rightarrow> Returned st
         | Exited code st \<Rightarrow> Exited code st
         | Thrown e st \<Rightarrow> Thrown e st))"

text \<open>
  The \<^verbatim>\<open>while (true)\<close> loop inside its \<^verbatim>\<open>try\<close>: a \<^verbatim>\<open>return\<close> runs the
  \<^verbatim>\<open>finally\<close> block and resolves; a thrown value is caught, printed and ends the
  process with status 1; \<^verbatim>\<open>process.exit\<close> ends the process where it is called. A
  loop that never ends is \<^const>\<open>None\<close>.
\<close>

definition finallyBlock :: "env \<Rightarrow> state \<Rightarrow> state" where
  "finallyBlock env st = (if isTelemetrySdkInitialized env then emit ShutdownTelemetry st else st)"

partial_function (option) whileLoop :: "env \<Rightarrow> string \<Rightarrow> state \<Rightarrow> (outcome \<times> state) option" where
  "whileLoop env pid st =
     (case turn env pid st of
        Proceed st' \<Rightarrow> whileLoop env pid st'
      | Returned st' \<Rightarrow> Some (Resolved, finallyBlock env st')
      | Exited code st' \<Rightarrow> Some (ProcessExit code, st')
      | Thrown e st' \<Rightarrow> Some (ProcessExit 1, consoleError (parseAndFormatApiError env e) st'))"

declare whileLoop.simps [code]

text \<open>
  The run starts at the loop. What comes before the \<^verbatim>\<open>try\<close> is left out: the
  initialisation of the configuration and of the chat, and the handler that ends the
  process with status 0 when standard output is closed by its reader.
\<close>

definition initialState :: "string \<Rightarrow> state" where
  "initialState input =
     \<lparr>turnCount = 0, currentMessages = [userTurn [textPart input]], events = [], time = 0\<rparr>"

text \<open>
  The run makes its own \<^verbatim>\<open>AbortController\<close>, hands out its signal only and never calls
  \<^verbatim>\<open>abort\<close>: in a run the signal reads false at every time.
\<close>

definition runNonInteractive :: "env \<Rightarrow> string \<Rightarrow> string \<Rightarrow> (outcome \<times> state) option" where
  "runNonInteractive env input pid =
     whileLoop (env\<lparr>aborted := (\<lambda>t. False)\<rparr>) pid (initialState input)"

section \<open>Startup warnings\<close>

text \<open>
  The file system and the runtime, as the checks see them: \<^verbatim>\<open>fs.realpath\<close> and
  \<^verbatim>\<open>os.homedir\<close> may fail (\<^const>\<open>Inl\<close>); \<^verbatim>\<open>process.versions.node\<close> is the
  runtime's own version text, of which \<^verbatim>\<open>semver.major\<close> gives the major number.
\<close>

record runtime =
  realpath :: "string \<Rightarrow> thrown + string"
  homedir :: "thrown + string"
  nodeVersion :: string
  nodeMajor :: nat

type_synonym warning_check = "string \<times> (runtime \<Rightarrow> string \<Rightarrow> thrown + string option)"

text \<open>
  The \<^verbatim>\<open>try\<close> block of the home-directory check. Whichever of \<^verbatim>\<open>os.homedir\<close> and
  the two \<^verbatim>\<open>fs.realpath\<close> fails, the block fails; the handler does not look at the
  error.
\<close>

definition homeDirectoryTry :: "runtime \<Rightarrow> string \<Rightarrow> thrown + string option" where
  "homeDirectoryTry rt workspaceRoot =
     (case homedir rt of
        Inl e \<Rightarrow> Inl e
      | Inr home \<Rightarrow>
          (case realpath rt workspaceRoot of
             Inl e \<Rightarrow> Inl e
           | Inr workspaceRealPath \<Rightarrow>
               (case realpath rt home of
                  Inl e \<Rightarrow> Inl e
                | Inr homeRealPath \<Rightarrow>
                    if workspaceRealPath = homeRealPath then
                      Inr (Some ''You are running MINE-AI Code in your home directory. It is recommended to run in a project-specific directory.'')
                    else Inr None)))"

definition homeDirectoryCheck :: warning_check where
  "homeDirectoryCheck =
     (''home-directory'', \<lambda>rt workspaceRoot.
        case homeDirectoryTry rt workspaceRoot of
          Inl _ \<Rightarrow> Inr (Some ''Could not verify the current directory due to a file system error.'')
        | Inr r \<Rightarrow> Inr r)"

definition nodeVersionCheck :: warning_check where
  "nodeVersionCheck =
     (''node-version'', \<lambda>rt _.
        let minMajor = 20; major = nodeMajor rt in
        if major < minMajor then
          Inr (Some (''You are using Node.js v'' @ nodeVersion rt
                 @ ''. Gemini CLI requires Node.js '' @ showNat minMajor
                 @ '' or higher for best results.''))
        else Inr None)"

definition WARNING_CHECKS :: "warning_check list" where
  "WARNING_CHECKS = [homeDirectoryCheck, nodeVersionCheck]"

text \<open>\<^verbatim>\<open>Promise.all\<close>: the results in the order of the promises, or a rejection.\<close>

fun promiseAll :: "(thrown + 'a) list \<Rightarrow> thrown + 'a list" where
  "promiseAll [] = Inr []"
| "promiseAll (Inl e # _) = Inl e"
| "promiseAll (Inr x # ps) = (case promiseAll ps of Inl e \<Rightarrow> Inl e | Inr xs \<Rightarrow> Inr (x # xs))"

definition getUserStartupWarnings :: "runtime \<Rightarrow> string \<Rightarrow> thrown + string list" where
  "getUserStartupWarnings rt workspaceRoot =
     (case promiseAll (map (\<lambda>check. snd check rt workspaceRoot) WARNING_CHECKS) of
        Inl e \<Rightarrow> Inl e
      | Inr results \<Rightarrow> Inr (map the (filter (\<lambda>msg. msg \<noteq> None) results)))"

section \<open>Notions used in the statements\<close>

subsection \<open>Reading a trace\<close>

text \<open>The dispatcher calls of a trace with their answers, and its model requests, in order.\<close>

fun toolCalls :: "event list \<Rightarrow> (tool_call_request_info \<times> (thrown + tool_call_response)) list" where
  "toolCalls [] = []"
| "toolCalls (ExecuteToolCall req answer # es) = (req, answer) # toolCalls es"
| "toolCalls (_ # es) = toolCalls es"

fun modelRequests :: "event list \<Rightarrow> part list list" where
  "modelRequests [] = []"
| "modelRequests (SendMessageStream msg # es) = msg # modelRequests es"
| "modelRequests (_ # es) = modelRequests es"

text \<open>The state in which a piece of the driver ends, however it ends.\<close>

fun stateIn :: "('a \<Rightarrow> state) \<Rightarrow> 'a control \<Rightarrow> state" where
  "stateIn f (Proceed x) = f x"
| "stateIn f (Returned st) = st"
| "stateIn f (Exited code st) = st"
| "stateIn f (Thrown e st) = st"

definition outcomeOf :: "(outcome \<times> state) option \<Rightarrow> outcome option" where
  "outcomeOf r = map_option fst r"

definition eventsOf :: "(outcome \<times> state) option \<Rightarrow> event list" where
  "eventsOf r = (case r of None \<Rightarrow> [] | Some (_, st) \<Rightarrow> events st)"

subsection \<open>The progress lines\<close>

definition startLine :: "string \<Rightarrow> string \<Rightarrow> string \<Rightarrow> string" where
  "startLine ts toolName argsStr =
     newline @ ''['' @ ts @ ''] '' @ glyphWrench @ '' Executing tool: '' @ toolName @ '' ''
     @ argsStr @ newline"

definition failedLine :: "string \<Rightarrow> string \<Rightarrow> string \<Rightarrow> string" where
  "failedLine ts toolName msg =
     ''['' @ ts @ ''] '' @ glyphCross @ '' Tool '' @ toolName @ '' failed: '' @ msg @ newline"

definition completedLine :: "env \<Rightarrow> string \<Rightarrow> state \<Rightarrow> string" where
  "completedLine env toolName st =
     ''['' @ toLocaleTimeString env (dateNow env (time st)) @ ''] '' @ glyphCheck @ '' Tool ''
     @ toolName @ '' completed successfully''"

subsection \<open>One call of a turn\<close>

text \<open>
  For a call dispatched from state \<open>st\<close>: the request the driver builds, the state in
  which it calls the dispatcher, and what the dispatcher answers there.
\<close>

definition requestOf :: "env \<Rightarrow> string \<Rightarrow> function_call \<Rightarrow> state \<Rightarrow> tool_call_request_info" where
  "requestOf env pid fc st = fst (buildRequest env pid fc st)"

definition atDispatch :: "env \<Rightarrow> string \<Rightarrow> function_call \<Rightarrow> state \<Rightarrow> state" where
  "atDispatch env pid fc st =
     displayToolCallInfo env (nameText fc) (argsOrEmpty fc) Start None None
       (snd (buildRequest env pid fc st))"

definition toolResponseOf ::
  "env \<Rightarrow> string \<Rightarrow> function_call \<Rightarrow> state \<Rightarrow> thrown + tool_call_response" where
  "toolResponseOf env pid fc st =
     executeToolCall env (time (atDispatch env pid fc st)) (requestOf env pid fc st)"

text \<open>A request is the one built for a call: same name and arguments, and the call's id if it has one.\<close>

definition matchesCall :: "tool_call_request_info \<Rightarrow> function_call \<Rightarrow> bool" where
  "matchesCall req fc =
     (name req = fc_name fc \<and> args req = argsOrEmpty fc \<and>
      (case fc_id fc of None \<Rightarrow> True | Some i \<Rightarrow> callId req = i))"

text \<open>The parts an answer of the dispatcher contributes to the next turn.\<close>

definition partsOfAnswer :: "thrown + tool_call_response \<Rightarrow> part list" where
  "partsOfAnswer answer =
     (case answer of Inl _ \<Rightarrow> [] | Inr toolResponse \<Rightarrow> appendResponseParts toolResponse [])"

subsection \<open>One turn\<close>

text \<open>The turn budget is not exhausted when the turn starts in this state.\<close>

definition withinBudget :: "env \<Rightarrow> state \<Rightarrow> bool" where
  "withinBudget env st =
     (\<not> (getMaxSessionTurns env > 0 \<and> int (turnCount st + 1) > getMaxSessionTurns env))"

text \<open>The function calls a stream item carries, and what a chunk makes the driver write.\<close>

definition chunkCalls :: "stream_item \<Rightarrow> function_call list" where
  "chunkCalls item =
     (case item of
        Chunk resp \<Rightarrow> (case functionCalls resp of None \<Rightarrow> [] | Some fcs \<Rightarrow> fcs)
      | StreamError _ \<Rightarrow> [])"

definition chunkWrites :: "generate_content_response \<Rightarrow> event list" where
  "chunkWrites resp =
     (case getResponseText resp of
        None \<Rightarrow> []
      | Some t \<Rightarrow> if t \<noteq> [] then [StdoutWrite t] else [])"

subsection \<open>Environments\<close>

text \<open>
  Conditions on the collaborators. \<open>requestsToolEveryTurn\<close>: the model client answers
  every request with a stream that carries at least one function call. \<open>streamsEnd\<close>: no
  stream throws while it is read. \<open>alwaysRequestsTool\<close>: both together, every stream being a
  list of chunks. \<open>neverCancelled\<close>: the signal is read as not set at every time.
  \<open>noFatalToolError\<close>: the dispatcher answers every call without throwing, and with no error
  other than a tool that is not in the registry.
\<close>

definition requestsToolEveryTurn :: "env \<Rightarrow> string \<Rightarrow> bool" where
  "requestsToolEveryTurn env pid =
     (\<forall>t msg. \<exists>items. sendMessageStream env t msg pid = Inr items \<and>
                        concat (map chunkCalls items) \<noteq> [])"

definition isChunk :: "stream_item \<Rightarrow> bool" where
  "isChunk item = (case item of Chunk _ \<Rightarrow> True | StreamError _ \<Rightarrow> False)"

definition streamsEnd :: "env \<Rightarrow> string \<Rightarrow> bool" where
  "streamsEnd env pid =
     (\<forall>t msg. case sendMessageStream env t msg pid of
                 Inl _ \<Rightarrow> True
               | Inr items \<Rightarrow> list_all isChunk items)"

definition alwaysRequestsTool :: "env \<Rightarrow> string \<Rightarrow> bool" where
  "alwaysRequestsTool env pid =
     (\<forall>t msg. \<exists>rs. sendMessageStream env t msg pid = Inr (map Chunk rs) \<and>
                     concat (map chunkCalls (map Chunk rs)) \<noteq> [])"

definition neverCancelled :: "env \<Rightarrow> bool" where
  "neverCancelled env = (\<forall>t. \<not> aborted env t)"

definition noFatalToolError :: "env \<Rightarrow> bool" where
  "noFatalToolError env =
     (\<forall>t req. \<exists>resp. executeToolCall env t req = Inr resp \<and>
        (\<forall>err. error resp = Some err \<longrightarrow> includesStr (message err) ''not found in registry''))"

definition telemetryEvents :: "env \<Rightarrow> event list" where
  "telemetryEvents env = (if isTelemetrySdkInitialized env then [ShutdownTelemetry] else [])"

subsection \<open>Startup warnings\<close>

definition warningOf :: "warning_check \<Rightarrow> runtime \<Rightarrow> string \<Rightarrow> string list" where
  "warningOf check rt workspaceRoot =
     (case snd check rt workspaceRoot of
        Inr (Some msg) \<Rightarrow> [msg]
      | _ \<Rightarrow> [])"

text \<open>The home directory, or the real path of the workspace or of the home directory, cannot be had.\<close>

definition realpathFails :: "runtime \<Rightarrow> string \<Rightarrow> bool" where
  "realpathFails rt workspaceRoot =
     (case homedir rt of
        Inl _ \<Rightarrow> True
      | Inr home \<Rightarrow> isl (realpath rt workspaceRoot) \<or> isl (realpath rt home))"

section \<open>Example inputs\<close>

definition exThoughtFirst :: generate_content_response where
  "exThoughtFirst =
     \<lparr>candidates = Some [\<lparr>cand_content = Some \<lparr>role = ''model'', parts = Some
        [\<lparr>text = Some ''hidden'', thought = True, otherContent = []\<rparr>,
         \<lparr>text = Some ''B'', thought = False, otherContent = []\<rparr>]\<rparr>\<rparr>],
      functionCalls = None\<rparr>"

definition exThoughtLater :: generate_content_response where
  "exThoughtLater =
     \<lparr>candidates = Some [\<lparr>cand_content = Some \<lparr>role = ''model'', parts = Some
        [\<lparr>text = Some ''A'', thought = False, otherContent = []\<rparr>,
         \<lparr>text = Some ''B'', thought = True, otherContent = []\<rparr>]\<rparr>\<rparr>],
      functionCalls = None\<rparr>"

definition exNoText :: generate_content_response where
  "exNoText =
     \<lparr>candidates = Some [\<lparr>cand_content = Some \<lparr>role = ''model'', parts = Some
        [\<lparr>text = Some [], thought = False, otherContent = ''call''\<rparr>,
         \<lparr>text = None, thought = True, otherContent = []\<rparr>]\<rparr>\<rparr>],
      functionCalls = None\<rparr>"

definition exTextChunk :: generate_content_response where
  "exTextChunk =
     \<lparr>candidates = Some [\<lparr>cand_content = Some \<lparr>role = ''model'', parts = Some
        [\<lparr>text = Some ''Hi'', thought = False, otherContent = []\<rparr>]\<rparr>\<rparr>],
      functionCalls = None\<rparr>"

definition exCall :: function_call where
  "exCall = \<lparr>fc_id = None, fc_name = Some ''ls'', fc_args = None\<rparr>"

definition exCallA :: function_call where
  "exCallA = \<lparr>fc_id = None, fc_name = Some ''ls'', fc_args = Some [(''path'', JsString ''/a'')]\<rparr>"

definition exCallB :: function_call where
  "exCallB = \<lparr>fc_id = None, fc_name = Some ''ls'', fc_args = Some [(''path'', JsString ''/b'')]\<rparr>"

definition exCallChunk :: generate_content_response where
  "exCallChunk = \<lparr>candidates = None, functionCalls = Some [exCall]\<rparr>"

definition exState :: state where
  "exState = \<lparr>turnCount = 0, currentMessages = [], events = [], time = 0\<rparr>"

definition exResultPart :: part where
  "exResultPart = \<lparr>text = None, thought = False, otherContent = ''functionResponse''\<rparr>"

definition exOkResponse :: tool_call_response where
  "exOkResponse = \<lparr>error = None, resultDisplay = None, responseParts = None\<rparr>"

definition exNotFound :: tool_call_response where
  "exNotFound =
     \<lparr>error = Some \<lparr>message = ''Tool ls not found in registry.''\<rparr>,
      resultDisplay = Some (DisplayString ''Tool ls not found in registry.''),
      responseParts = Some (PartSingle (PartObject exResultPart))\<rparr>"

definition exFatal :: tool_call_response where
  "exFatal =
     \<lparr>error = Some \<lparr>message = ''permission denied''\<rparr>,
      resultDisplay = None,
      responseParts = Some (PartSingle (PartObject exResultPart))\<rparr>"

text \<open>
  An environment with no turn budget, a model client whose streams are empty, a signal
  that is never set, a dispatcher that succeeds with nothing to show, and a clock that
  stands still.
\<close>

definition exEnv :: env where
  "exEnv =
     \<lparr>getMaxSessionTurns = 0,
      sendMessageStream = (\<lambda>t msg pid. Inr []),
      aborted = (\<lambda>t. False),
      executeToolCall = (\<lambda>t req. Inr exOkResponse),
      dateNow = (\<lambda>t. 1700000000000),
      toLocaleTimeString = (\<lambda>ms. ''12:00:00''),
      parseAndFormatApiError = (\<lambda>e. e),
      isTelemetrySdkInitialized = False\<rparr>"

text \<open>
  A model client that asks for a tool once, on the first message, with a dispatcher that
  does not know the tool; and one that asks for two tools, of which the dispatcher does
  not know the first and fails on the second.
\<close>

definition envNotFoundOnce :: env where
  "envNotFoundOnce =
     exEnv\<lparr>sendMessageStream :=
             (\<lambda>t msg pid. if msg = [textPart ''go''] then Inr [Chunk exCallChunk] else Inr []),
           executeToolCall := (\<lambda>t req. Inr exNotFound)\<rparr>"

definition envMixed :: env where
  "envMixed =
     exEnv\<lparr>sendMessageStream :=
             (\<lambda>t msg pid. Inr [Chunk \<lparr>candidates = None, functionCalls = Some [exCallA, exCallB]\<rparr>]),
           executeToolCall :=
             (\<lambda>t req. if args req = [(''path'', JsString ''/a'')] then Inr exNotFound
                       else Inr exFatal)\<rparr>"

definition envFatal :: env where
  "envFatal = exEnv\<lparr>executeToolCall := (\<lambda>t req. Inr exFatal)\<rparr>"

text \<open>A budget of two turns and a model client that asks for a tool on every turn.\<close>

definition envLoop :: env where
  "envLoop = exEnv\<lparr>getMaxSessionTurns := 2,
                   sendMessageStream := (\<lambda>t msg pid. Inr [Chunk exCallChunk])\<rparr>"

definition envLoopFatal :: env where
  "envLoopFatal = envLoop\<lparr>executeToolCall := (\<lambda>t req. Inr exFatal)\<rparr>"

text \<open>The same budget and calls, with a stream that throws after the call, and with a dispatcher that throws.\<close>

definition envLoopStreamThrows :: env where
  "envLoopStreamThrows =
     envLoop\<lparr>sendMessageStream := (\<lambda>t msg pid. Inr [Chunk exCallChunk, StreamError ''ECONNRESET''])\<rparr>"

definition envLoopToolThrows :: env where
  "envLoopToolThrows = envLoop\<lparr>executeToolCall := (\<lambda>t req. Inl ''tool crashed'')\<rparr>"

text \<open>Two calls in two chunks; the dispatcher answers each call with its formatted arguments.\<close>

definition envEcho :: env where
  "envEcho = exEnv\<lparr>sendMessageStream :=
                      (\<lambda>t msg pid. Inr [Chunk \<lparr>candidates = None, functionCalls = Some [exCallA]\<rparr>,
                                          Chunk \<lparr>candidates = None, functionCalls = Some [exCallB]\<rparr>]),
                    executeToolCall :=
                      (\<lambda>t req. Inr \<lparr>error = None, resultDisplay = None,
                                       responseParts = Some (PartSingle (PartString (formatToolArgs (Some (args req)))))\<rparr>)\<rparr>"

text \<open>
  A loop whose signal is set from time 3 on. The first request is made at time 0 and its
  stream is there at time 1, so the first chunk is checked at time 2 and the second at
  time 3.
\<close>

definition envCancel :: env where
  "envCancel = exEnv\<lparr>sendMessageStream :=
                        (\<lambda>t msg pid. Inr [Chunk exTextChunk, Chunk exCallChunk, Chunk exTextChunk]),
                     aborted := (\<lambda>t. 3 \<le> t)\<rparr>"

definition exRuntime :: runtime where
  "exRuntime =
     \<lparr>realpath = (\<lambda>p. if p = ''/gone'' then Inl ''ENOENT'' else Inr p),
      homedir = Inr ''/home/u'',
      nodeVersion = ''18.19.0'',
      nodeMajor = 18\<rparr>"

section \<open>Properties\<close>

subsection \<open>Basic facts\<close>

lemma join_empty_sep: "join [] xs = concat xs"
  by (induction "[] :: string" xs rule: join.induct) auto

lemma trim_Nil: "trim [] = []"
  by code_simp

lemma trim_ok: "trim ''ok'' = ''ok''"
  by code_simp

lemma trim_space: "trim '' '' = []"
  by code_simp

lemma showNat_example: "showNat 1700000000000 = ''1700000000000''"
  by (simp add: showNat.simps digitChar_def)

lemma events_emit: "events (emit e st) = events st @ [e]"
  by (simp add: emit_def)

lemma events_tick: "events (tick st) = events st"
  by (simp add: tick_def)

lemma events_stdoutWrite: "events (stdoutWrite s st) = events st @ [StdoutWrite s]"
  by (simp add: stdoutWrite_def events_emit)

lemma events_consoleError: "events (consoleError s st) = events st @ [ConsoleError s]"
  by (simp add: consoleError_def events_emit)

lemma turnCount_simps:
  "turnCount (emit e st) = turnCount st"
  "turnCount (tick st) = turnCount st"
  "turnCount (consoleError s st) = turnCount st"
  "turnCount (stdoutWrite s st) = turnCount st"
  by (simp_all add: emit_def tick_def consoleError_def stdoutWrite_def)

lemma toolCalls_append: "toolCalls (xs @ ys) = toolCalls xs @ toolCalls ys"
  by (induction xs rule: toolCalls.induct) auto

lemma modelRequests_append: "modelRequests (xs @ ys) = modelRequests xs @ modelRequests ys"
  by (induction xs rule: modelRequests.induct) auto

text \<open>The definitions a run on an example input unfolds.\<close>

lemmas driver_defs =
  turn_def requestTurn_def dispatchTurn_def dispatchCall_def buildRequest_def makeCallId_def
  reportResponse_def displayToolCallInfo_def processChunk_def appendResponseParts_def
  errorMessageOf_def displayOrMessage_def truthyDisplay_def truthyPart_def finallyBlock_def
  firstMessageParts_def userTurn_def textPart_def nameText_def argsOrEmpty_def undefinedOr_def
  formatToolArgs_def formatArg_def stdoutWrite_def consoleError_def emit_def tick_def
  getResponseText_def initialState_def Let_def

lemmas example_defs =
  exState_def exOkResponse_def exEnv_def exCall_def exCallA_def exCallB_def exCallChunk_def
  exTextChunk_def exResultPart_def exNotFound_def exFatal_def envNotFoundOnce_def envMixed_def envFatal_def
  envLoop_def envLoopFatal_def envLoopStreamThrows_def envLoopToolThrows_def
  envEcho_def envCancel_def

lemmas line_defs = startLine_def failedLine_def completedLine_def

subsection \<open>Response text extraction\<close>

text \<open>
  C7. When the first part of the first candidate is marked as a thought, the extractor
  returns null whatever the other parts carry. The marker is looked at on the part at
  index 0 only: when that part is no thought, the result is the concatenation of the
  non-empty texts of all parts, whether or not a later part is marked as a thought.
\<close>

theorem getResponseText_first_part_thought:
  assumes "candidates response = Some (cand # cands)"
    and "cand_content cand = Some c"
    and "parts c = Some (p # ps)"
  shows "(thought p \<longrightarrow> getResponseText response = None) \<and>
         (\<not> thought p \<longrightarrow>
            getResponseText response = Some (concat (map textOf (filter truthyText (p # ps)))))"
  using assms by (simp add: getResponseText_def join_empty_sep)

theorem getResponseText_first_part_thought_witness:
  "getResponseText exThoughtFirst = None \<and> getResponseText exThoughtLater = Some ''AB''"
  using getResponseText_first_part_thought [of exThoughtFirst
          "\<lparr>cand_content = Some \<lparr>role = ''model'', parts = Some
            [\<lparr>text = Some ''hidden'', thought = True, otherContent = []\<rparr>,
             \<lparr>text = Some ''B'', thought = False, otherContent = []\<rparr>]\<rparr>\<rparr>" "[]"
          "\<lparr>role = ''model'', parts = Some
            [\<lparr>text = Some ''hidden'', thought = True, otherContent = []\<rparr>,
             \<lparr>text = Some ''B'', thought = False, otherContent = []\<rparr>]\<rparr>"
          "\<lparr>text = Some ''hidden'', thought = True, otherContent = []\<rparr>"
          "[\<lparr>text = Some ''B'', thought = False, otherContent = []\<rparr>]"]
        getResponseText_first_part_thought [of exThoughtLater
          "\<lparr>cand_content = Some \<lparr>role = ''model'', parts = Some
            [\<lparr>text = Some ''A'', thought = False, otherContent = []\<rparr>,
             \<lparr>text = Some ''B'', thought = True, otherContent = []\<rparr>]\<rparr>\<rparr>" "[]"
          "\<lparr>role = ''model'', parts = Some
            [\<lparr>text = Some ''A'', thought = False, otherContent = []\<rparr>,
             \<lparr>text = Some ''B'', thought = True, otherContent = []\<rparr>]\<rparr>"
          "\<lparr>text = Some ''A'', thought = False, otherContent = []\<rparr>"
          "[\<lparr>text = Some ''B'', thought = True, otherContent = []\<rparr>]"]
  by (simp add: exThoughtFirst_def exThoughtLater_def truthyText_def textOf_def)

lemma filter_no_text: "\<forall>q\<in>set qs. \<not> truthyText q \<Longrightarrow> filter truthyText qs = []"
  by (induction qs) auto

text \<open>
  C9. When the first candidate has parts, the first part is no thought and no part has a
  non-empty text, the extractor returns the empty string, not null; processing the chunk
  then leaves the state as it was, so nothing is written for it.
\<close>

theorem getResponseText_no_text:
  assumes "candidates response = Some (cand # cands)"
    and "cand_content cand = Some c"
    and "parts c = Some (p # ps)"
    and "\<not> thought p"
    and "\<forall>q\<in>set (p # ps). \<not> truthyText q"
  shows "getResponseText response = Some [] \<and>
         snd (processChunk response (calls, st)) = st"
proof -
  have "filter truthyText (p # ps) = []"
    using assms(5) by (rule filter_no_text)
  then have "getResponseText response = Some []"
    using assms(1-4) by (simp add: getResponseText_def split: if_splits)
  then show ?thesis
    by (simp add: processChunk_def Let_def)
qed

theorem getResponseText_no_text_witness:
  "getResponseText exNoText = Some [] \<and> snd (processChunk exNoText ([], exState)) = exState"
  using getResponseText_no_text [of exNoText
          "\<lparr>cand_content = Some \<lparr>role = ''model'', parts = Some
            [\<lparr>text = Some [], thought = False, otherContent = ''call''\<rparr>,
             \<lparr>text = None, thought = True, otherContent = []\<rparr>]\<rparr>\<rparr>" "[]"
          "\<lparr>role = ''model'', parts = Some
            [\<lparr>text = Some [], thought = False, otherContent = ''call''\<rparr>,
             \<lparr>text = None, thought = True, otherContent = []\<rparr>]\<rparr>"
          "\<lparr>text = Some [], thought = False, otherContent = ''call''\<rparr>"
          "[\<lparr>text = None, thought = True, otherContent = []\<rparr>]" "[]" exState]
  by (simp add: exNoText_def truthyText_def)

subsection \<open>Tool-call progress lines\<close>

text \<open>
  C6, amended. For status success: a string result with something other than white space
  in it gives the completion line and then the string as it is; a file-diff result gives
  the completion line, the file name and the diff body; an absent result, an object that
  is no file diff, and a string that is empty or only white space give the line
  "completed successfully (no output)".
\<close>

theorem displayToolCallInfo_success:
  "(trim s \<noteq> [] \<longrightarrow>
      events (displayToolCallInfo env toolName a Success (Some (DisplayString s)) em st) =
        events st @ [StdoutWrite (completedLine env toolName st @ newline),
                     StdoutWrite (glyphClipboard @ '' Result:'' @ newline @ s @ newline)]) \<and>
   events (displayToolCallInfo env toolName a Success (Some (FileDiff diff file)) em st) =
     events st @ [StdoutWrite (completedLine env toolName st @ newline),
                  StdoutWrite (glyphClipboard @ '' File: '' @ file @ newline),
                  StdoutWrite (glyphClipboard @ '' Diff:'' @ newline @ diff @ newline)] \<and>
   (rd = None \<or> rd = Some DisplayOther \<or> (\<exists>b. rd = Some (DisplayString b) \<and> trim b = []) \<longrightarrow>
      events (displayToolCallInfo env toolName a Success rd em st) =
        events st @ [StdoutWrite (completedLine env toolName st @ '' (no output)'' @ newline)])"
proof (intro conjI impI)
  assume "trim s \<noteq> []"
  then have "s \<noteq> []" using trim_Nil by auto
  with \<open>trim s \<noteq> []\<close>
  show "events (displayToolCallInfo env toolName a Success (Some (DisplayString s)) em st) =
        events st @ [StdoutWrite (completedLine env toolName st @ newline),
                     StdoutWrite (glyphClipboard @ '' Result:'' @ newline @ s @ newline)]"
    by (simp add: displayToolCallInfo_def Let_def truthyDisplay_def completedLine_def
        stdoutWrite_def events_emit events_tick tick_def)
next
  show "events (displayToolCallInfo env toolName a Success (Some (FileDiff diff file)) em st) =
     events st @ [StdoutWrite (completedLine env toolName st @ newline),
                  StdoutWrite (glyphClipboard @ '' File: '' @ file @ newline),
                  StdoutWrite (glyphClipboard @ '' Diff:'' @ newline @ diff @ newline)]"
    by (simp add: displayToolCallInfo_def Let_def truthyDisplay_def completedLine_def
        stdoutWrite_def events_emit events_tick tick_def)
next
  assume "rd = None \<or> rd = Some DisplayOther \<or> (\<exists>b. rd = Some (DisplayString b) \<and> trim b = [])"
  then show "events (displayToolCallInfo env toolName a Success rd em st) =
        events st @ [StdoutWrite (completedLine env toolName st @ '' (no output)'' @ newline)]"
    by (auto simp add: displayToolCallInfo_def Let_def truthyDisplay_def completedLine_def
        stdoutWrite_def events_emit events_tick tick_def)
qed

theorem displayToolCallInfo_success_witness:
  "events (displayToolCallInfo exEnv ''ls'' [] Success (Some (DisplayString ''ok'')) None exState) =
     [StdoutWrite (''[12:00:00] '' @ glyphCheck @ '' Tool ls completed successfully'' @ newline),
      StdoutWrite (glyphClipboard @ '' Result:'' @ newline @ ''ok'' @ newline)] \<and>
   events (displayToolCallInfo exEnv ''ls'' [] Success None None exState) =
     [StdoutWrite (''[12:00:00] '' @ glyphCheck @ '' Tool ls completed successfully (no output)'' @ newline)]"
  using displayToolCallInfo_success [of "''ok''" exEnv "''ls''" "[]" None exState "[]" "[]" None] trim_ok
  by (simp add: completedLine_def exEnv_def exState_def)

text \<open>
  The claim as written fails on a string of white space: it is not empty, and the reporter
  prints the "no output" line without the string.
\<close>

theorem displayToolCallInfo_blank_counterexample:
  "'' '' \<noteq> [] \<and>
   events (displayToolCallInfo exEnv ''ls'' [] Success (Some (DisplayString '' '')) None exState) =
     [StdoutWrite (''[12:00:00] '' @ glyphCheck @ '' Tool ls completed successfully (no output)'' @ newline)]"
  using trim_space
  by (simp add: displayToolCallInfo_def Let_def truthyDisplay_def exEnv_def exState_def
      stdoutWrite_def events_emit events_tick tick_def emit_def)

subsection \<open>The events of one call\<close>

lemma events_makeCallId: "events (snd (makeCallId env fc st)) = events st"
  by (simp add: makeCallId_def events_tick split: option.splits)

lemma events_buildRequest: "events (snd (buildRequest env pid fc st)) = events st"
  by (simp add: buildRequest_def events_makeCallId split: prod.splits)
     (metis events_makeCallId snd_conv)

lemma events_display_Start:
  "events (displayToolCallInfo env n a Start rd em st) =
     events st @ [StdoutWrite (startLine (toLocaleTimeString env (dateNow env (time st))) n
                    (formatToolArgs (Some a)))]"
  by (simp add: displayToolCallInfo_def Let_def startLine_def stdoutWrite_def events_emit events_tick)

lemma events_display_Error:
  "events (displayToolCallInfo env n a Error rd (Some m) st) =
     events st @ [StdoutWrite (failedLine (toLocaleTimeString env (dateNow env (time st))) n m)]"
  by (simp add: displayToolCallInfo_def Let_def failedLine_def stdoutWrite_def events_emit
      events_tick undefinedOr_def)

lemma events_atDispatch:
  "\<exists>ts. events (atDispatch env pid fc st) =
     events st @ [StdoutWrite (startLine ts (nameText fc) (formatToolArgs (Some (argsOrEmpty fc))))]"
  by (auto simp add: atDispatch_def events_display_Start events_buildRequest)

lemma dispatchCall_unfold:
  "dispatchCall env pid fc (ps, st) =
     (let st3 = tick (emit (ExecuteToolCall (requestOf env pid fc st) (toolResponseOf env pid fc st))
                  (atDispatch env pid fc st))
      in case toolResponseOf env pid fc st of
           Inl e \<Rightarrow> Thrown e st3
         | Inr toolResponse \<Rightarrow>
             (case reportResponse env fc toolResponse st3 of
                Proceed st4 \<Rightarrow> Proceed (appendResponseParts toolResponse ps, st4)
              | Returned s \<Rightarrow> Returned s
              | Exited code s \<Rightarrow> Exited code s
              | Thrown e s \<Rightarrow> Thrown e s))"
  by (cases "buildRequest env pid fc st")
     (simp add: dispatchCall_def toolResponseOf_def requestOf_def atDispatch_def Let_def)

lemma reportResponse_error:
  assumes "error resp = Some err"
  shows "\<exists>st' ts. events st' =
            events st @ [StdoutWrite (failedLine ts (nameText fc) (errorMessageOf resp err)),
                         ConsoleError (''Error executing tool '' @ nameText fc @ '': ''
                                       @ displayOrMessage resp err)] \<and>
          reportResponse env fc resp st =
            (if includesStr (message err) ''not found in registry'' then Proceed st'
             else Exited 1 st')"
  using assms
  by (auto simp add: reportResponse_def Let_def events_consoleError events_display_Error)

lemma dispatchCalls_append:
  "dispatchCalls env pid (xs @ ys) acc =
     (case dispatchCalls env pid xs acc of
        Proceed acc' \<Rightarrow> dispatchCalls env pid ys acc'
      | Returned st \<Rightarrow> Returned st
      | Exited code st \<Rightarrow> Exited code st
      | Thrown e st \<Rightarrow> Thrown e st)"
  by (induction xs arbitrary: acc) (auto split: control.splits)

lemma dispatchCall_error:
  assumes "toolResponseOf env pid fc st = Inr resp" and "error resp = Some err"
  shows "\<exists>st' ts1 ts2.
           events st' = events st @
             [StdoutWrite (startLine ts1 (nameText fc) (formatToolArgs (Some (argsOrEmpty fc)))),
              ExecuteToolCall (requestOf env pid fc st) (Inr resp),
              StdoutWrite (failedLine ts2 (nameText fc) (errorMessageOf resp err)),
              ConsoleError (''Error executing tool '' @ nameText fc @ '': ''
                            @ displayOrMessage resp err)] \<and>
           dispatchCall env pid fc (ps, st) =
             (if includesStr (message err) ''not found in registry''
              then Proceed (appendResponseParts resp ps, st') else Exited 1 st')"
proof -
  define st3 where "st3 = tick (emit (ExecuteToolCall (requestOf env pid fc st) (Inr resp))
                  (atDispatch env pid fc st))"
  obtain ts1 where e3: "events st3 = events st @
      [StdoutWrite (startLine ts1 (nameText fc) (formatToolArgs (Some (argsOrEmpty fc)))),
       ExecuteToolCall (requestOf env pid fc st) (Inr resp)]"
    using events_atDispatch [of env pid fc st] by (auto simp: st3_def events_tick events_emit)
  obtain st' ts2 where r: "events st' =
            events st3 @ [StdoutWrite (failedLine ts2 (nameText fc) (errorMessageOf resp err)),
                         ConsoleError (''Error executing tool '' @ nameText fc @ '': ''
                                       @ displayOrMessage resp err)]"
      "reportResponse env fc resp st3 =
            (if includesStr (message err) ''not found in registry'' then Proceed st'
             else Exited 1 st')"
    using reportResponse_error [OF assms(2), of st3 fc env] by blast
  have "dispatchCall env pid fc (ps, st) =
             (if includesStr (message err) ''not found in registry''
              then Proceed (appendResponseParts resp ps, st') else Exited 1 st')"
    using assms(1) r(2) by (simp add: dispatchCall_unfold st3_def)
  moreover have "events st' = events st @
             [StdoutWrite (startLine ts1 (nameText fc) (formatToolArgs (Some (argsOrEmpty fc)))),
              ExecuteToolCall (requestOf env pid fc st) (Inr resp),
              StdoutWrite (failedLine ts2 (nameText fc) (errorMessageOf resp err)),
              ConsoleError (''Error executing tool '' @ nameText fc @ '': ''
                            @ displayOrMessage resp err)]"
    using r(1) e3 by simp
  ultimately show ?thesis by blast
qed

lemma whileLoop_Exited:
  "turn env pid st = Exited code st' \<Longrightarrow> whileLoop env pid st = Some (ProcessExit code, st')"
  by (subst whileLoop.simps) simp

lemma whileLoop_Proceed:
  "turn env pid st = Proceed st' \<Longrightarrow> whileLoop env pid st = whileLoop env pid st'"
  by (subst whileLoop.simps) simp

lemma whileLoop_Returned:
  "turn env pid st = Returned st' \<Longrightarrow> whileLoop env pid st = Some (Resolved, finallyBlock env st')"
  by (subst whileLoop.simps) simp

lemma turn_unfold:
  "withinBudget env st \<Longrightarrow>
   turn env pid st =
     (case requestTurn env pid (st\<lparr>turnCount := turnCount st + 1\<rparr>) of
        Proceed (calls, st2) \<Rightarrow> dispatchTurn env pid calls st2
      | Returned s \<Rightarrow> Returned s
      | Exited code s \<Rightarrow> Exited code s
      | Thrown e s \<Rightarrow> Thrown e s)"
  by (auto simp add: turn_def withinBudget_def Let_def)

lemma turn_budget_reached:
  "\<not> withinBudget env st \<Longrightarrow>
   turn env pid st = Returned (consoleError maxTurnsMessage (st\<lparr>turnCount := turnCount st + 1\<rparr>))"
  by (auto simp add: turn_def withinBudget_def Let_def)

subsection \<open>The events of a turn only grow\<close>

lemma processChunk_eq:
  "processChunk resp (calls, st) =
     (calls @ chunkCalls (Chunk resp), st\<lparr>events := events st @ chunkWrites resp\<rparr>)"
  by (simp add: processChunk_def chunkCalls_def chunkWrites_def Let_def stdoutWrite_def emit_def
      split: option.splits)

lemma requestTurn_stream:
  "sendMessageStream env (time st) (firstMessageParts (currentMessages st)) pid = Inr items \<Longrightarrow>
   requestTurn env pid st =
     consumeStream env items
       ([], tick (emit (SendMessageStream (firstMessageParts (currentMessages st))) st))"
  by (simp add: requestTurn_def Let_def emit_def)

lemma events_display_grow:
  "\<exists>evs. events (displayToolCallInfo env n a s rd em st) = events st @ evs"
  by (simp add: displayToolCallInfo_def Let_def stdoutWrite_def events_emit events_tick
      split: status.splits option.splits tool_result_display.splits)

lemma events_reportResponse_grow:
  "\<exists>evs. events (stateIn id (reportResponse env fc r st)) = events st @ evs"
proof (cases "error r")
  case None
  then show ?thesis
    using events_display_grow by (simp add: reportResponse_def)
next
  case (Some err)
  obtain evs where "events (displayToolCallInfo env (nameText fc) (argsOrEmpty fc) Error None
                       (Some (errorMessageOf r err)) st) = events st @ evs"
    using events_display_grow by blast
  then show ?thesis
    using Some by (simp add: reportResponse_def Let_def events_consoleError)
qed

lemma events_dispatchCall_grow:
  "\<exists>evs. events (stateIn snd (dispatchCall env pid fc (ps, st))) = events st @ evs"
proof -
  let ?st3 = "tick (emit (ExecuteToolCall (requestOf env pid fc st) (toolResponseOf env pid fc st))
                  (atDispatch env pid fc st))"
  obtain ts where e3: "events ?st3 = events st @
      [StdoutWrite (startLine ts (nameText fc) (formatToolArgs (Some (argsOrEmpty fc)))),
       ExecuteToolCall (requestOf env pid fc st) (toolResponseOf env pid fc st)]"
    using events_atDispatch [of env pid fc st] by (auto simp: events_tick events_emit)
  show ?thesis
  proof (cases "toolResponseOf env pid fc st")
    case (Inl e)
    then show ?thesis using e3 by (simp add: dispatchCall_unfold Let_def)
  next
    case (Inr r)
    obtain evs where "events (stateIn id (reportResponse env fc r ?st3)) = events ?st3 @ evs"
      using events_reportResponse_grow by blast
    then show ?thesis
      using Inr e3
      by (cases "reportResponse env fc r ?st3") (simp_all add: dispatchCall_unfold Let_def)
  qed
qed

lemma events_dispatchCalls_grow:
  "\<exists>evs. events (stateIn snd (dispatchCalls env pid calls (ps, st))) = events st @ evs"
proof (induction calls arbitrary: ps st)
  case Nil
  show ?case by simp
next
  case (Cons fc rest)
  obtain evs where 1: "events (stateIn snd (dispatchCall env pid fc (ps, st))) = events st @ evs"
    using events_dispatchCall_grow by blast
  show ?case
  proof (cases "dispatchCall env pid fc (ps, st)")
    case (Proceed acc)
    obtain ps1 st1 where acc: "acc = (ps1, st1)" by (cases acc)
    obtain evs' where "events (stateIn snd (dispatchCalls env pid rest (ps1, st1))) = events st1 @ evs'"
      using Cons by blast
    then show ?thesis using 1 Proceed acc by simp
  qed (use 1 in simp_all)
qed

lemma events_consumeStream_grow:
  "\<exists>evs. events (stateIn snd (consumeStream env items (calls, st))) = events st @ evs"
proof (induction items arbitrary: calls st)
  case Nil
  show ?case by (simp add: events_tick)
next
  case (Cons item items)
  show ?case
  proof (cases item)
    case (Chunk resp)
    obtain evs where "events (stateIn snd (consumeStream env items
          (calls @ chunkCalls (Chunk resp), (tick st)\<lparr>events := events (tick st) @ chunkWrites resp\<rparr>)))
        = events ((tick st)\<lparr>events := events (tick st) @ chunkWrites resp\<rparr>) @ evs"
      using Cons by blast
    then show ?thesis
      using Chunk by (simp add: Let_def processChunk_eq events_tick events_consoleError)
  next
    case (StreamError e)
    then show ?thesis by (simp add: events_tick)
  qed
qed

lemma events_dispatchTurn_grow:
  "\<exists>evs. events (stateIn id (dispatchTurn env pid calls st)) = events st @ evs"
proof (cases "calls = []")
  case True
  then show ?thesis by (simp add: dispatchTurn_def events_stdoutWrite)
next
  case False
  obtain evs where "events (stateIn snd (dispatchCalls env pid calls ([], st))) = events st @ evs"
    using events_dispatchCalls_grow by blast
  then show ?thesis
    using False by (cases "dispatchCalls env pid calls ([], st)") (auto simp add: dispatchTurn_def)
qed

lemma turn_first_event:
  assumes "withinBudget env st"
  shows "\<exists>evs. events (stateIn id (turn env pid st)) =
           events st @ SendMessageStream (firstMessageParts (currentMessages st)) # evs"
proof -
  let ?st1 = "st\<lparr>turnCount := turnCount st + 1\<rparr>"
  let ?msg = "firstMessageParts (currentMessages st)"
  let ?st2 = "tick (emit (SendMessageStream ?msg) ?st1)"
  have e2: "events ?st2 = events st @ [SendMessageStream ?msg]"
    by (simp add: events_tick events_emit)
  show ?thesis
  proof (cases "sendMessageStream env (time st) ?msg pid")
    case (Inl e)
    then have "turn env pid st = Thrown e ?st2"
      using assms by (simp add: turn_unfold requestTurn_def Let_def emit_def)
    then show ?thesis using e2 by simp
  next
    case (Inr items)
    have rt: "requestTurn env pid ?st1 = consumeStream env items ([], ?st2)"
      using requestTurn_stream [of env ?st1 pid items] Inr by simp
    obtain evs where c: "events (stateIn snd (consumeStream env items ([], ?st2))) = events ?st2 @ evs"
      using events_consumeStream_grow by blast
    show ?thesis
    proof (cases "consumeStream env items ([], ?st2)")
      case (Proceed acc)
      obtain calls st3 where acc: "acc = (calls, st3)" by (cases acc)
      obtain evs' where "events (stateIn id (dispatchTurn env pid calls st3)) = events st3 @ evs'"
        using events_dispatchTurn_grow by blast
      moreover have "turn env pid st = dispatchTurn env pid calls st3"
        using assms rt Proceed acc by (simp add: turn_unfold)
      ultimately show ?thesis using c e2 Proceed acc by simp
    next
      case (Returned s)
      then have "turn env pid st = Returned s" using assms rt by (simp add: turn_unfold)
      then show ?thesis using c e2 Returned by simp
    next
      case (Exited code s)
      then have "turn env pid st = Exited code s" using assms rt by (simp add: turn_unfold)
      then show ?thesis using c e2 Exited by simp
    next
      case (Thrown e s)
      then have "turn env pid st = Thrown e s" using assms rt by (simp add: turn_unfold)
      then show ?thesis using c e2 Thrown by simp
    qed
  qed
qed

lemma whileLoop_unfold:
  "whileLoop env pid st =
     (case turn env pid st of
        Proceed st' \<Rightarrow> whileLoop env pid st'
      | Returned st' \<Rightarrow> Some (Resolved, finallyBlock env st')
      | Exited code st' \<Rightarrow> Some (ProcessExit code, st')
      | Thrown e st' \<Rightarrow> Some (ProcessExit 1, consoleError (parseAndFormatApiError env e) st'))"
  by (rule whileLoop.simps)

subsection \<open>Tool errors\<close>

text \<open>
  C1, amended. When the dispatcher answers a call with an error whose message contains
  "not found in registry", that call does not end the process: after the start line and
  the call, the driver writes the failure line to standard output and the error line to
  standard error, and nothing else; it appends the response parts of the answer to the
  parts of the turn; and it goes on with the remaining calls of the turn from there. When
  none of the remaining calls ends the turn, the turn ends by making the accumulated
  parts the next user turn, and the loop goes into its next iteration with it: the run
  is what that iteration makes of it, and unless the turn budget is exhausted the
  iteration starts by sending these parts to the model.
\<close>

theorem tool_not_found_continues:
  assumes "toolResponseOf env pid fc st = Inr resp"
    and "error resp = Some err"
    and "includesStr (message err) ''not found in registry''"
  shows "\<exists>st' ts1 ts2.
           dispatchCall env pid fc (ps, st) = Proceed (appendResponseParts resp ps, st') \<and>
           events st' = events st @
             [StdoutWrite (startLine ts1 (nameText fc) (formatToolArgs (Some (argsOrEmpty fc)))),
              ExecuteToolCall (requestOf env pid fc st) (Inr resp),
              StdoutWrite (failedLine ts2 (nameText fc) (errorMessageOf resp err)),
              ConsoleError (''Error executing tool '' @ nameText fc @ '': ''
                            @ displayOrMessage resp err)] \<and>
           dispatchCalls env pid (fc # rest) (ps, st) =
             dispatchCalls env pid rest (appendResponseParts resp ps, st') \<and>
           (\<forall>ps'' st'' s.
              withinBudget env s \<and>
              requestTurn env pid (s\<lparr>turnCount := turnCount s + 1\<rparr>) = Proceed (pre @ fc # rest, st0) \<and>
              dispatchCalls env pid pre ([], st0) = Proceed (ps, st) \<and>
              dispatchCalls env pid rest (appendResponseParts resp ps, st') = Proceed (ps'', st'')
              \<longrightarrow> turn env pid s = Proceed (st''\<lparr>currentMessages := [userTurn ps'']\<rparr>) \<and>
                  whileLoop env pid s =
                    (case turn env pid (st''\<lparr>currentMessages := [userTurn ps'']\<rparr>) of
                       Proceed st3 \<Rightarrow> whileLoop env pid st3
                     | Returned st3 \<Rightarrow> Some (Resolved, finallyBlock env st3)
                     | Exited code st3 \<Rightarrow> Some (ProcessExit code, st3)
                     | Thrown e st3 \<Rightarrow>
                         Some (ProcessExit 1, consoleError (parseAndFormatApiError env e) st3)) \<and>
                  (withinBudget env (st''\<lparr>currentMessages := [userTurn ps'']\<rparr>) \<longrightarrow>
                     (\<exists>evs. events (stateIn id (turn env pid (st''\<lparr>currentMessages := [userTurn ps'']\<rparr>)))
                            = events st'' @ SendMessageStream ps'' # evs)))"
proof -
  obtain st' ts1 ts2 where ev: "events st' = events st @
             [StdoutWrite (startLine ts1 (nameText fc) (formatToolArgs (Some (argsOrEmpty fc)))),
              ExecuteToolCall (requestOf env pid fc st) (Inr resp),
              StdoutWrite (failedLine ts2 (nameText fc) (errorMessageOf resp err)),
              ConsoleError (''Error executing tool '' @ nameText fc @ '': ''
                            @ displayOrMessage resp err)]"
    and dc: "dispatchCall env pid fc (ps, st) = Proceed (appendResponseParts resp ps, st')"
    using dispatchCall_error [OF assms(1,2), of ps] assms(3) by auto
  have all: "dispatchCalls env pid (fc # rest) (ps, st) =
             dispatchCalls env pid rest (appendResponseParts resp ps, st')"
    by (simp add: dc)
  have goal: "turn env pid s = Proceed (st''\<lparr>currentMessages := [userTurn ps'']\<rparr>) \<and>
        whileLoop env pid s =
          (case turn env pid (st''\<lparr>currentMessages := [userTurn ps'']\<rparr>) of
             Proceed st3 \<Rightarrow> whileLoop env pid st3
           | Returned st3 \<Rightarrow> Some (Resolved, finallyBlock env st3)
           | Exited code st3 \<Rightarrow> Some (ProcessExit code, st3)
           | Thrown e st3 \<Rightarrow>
               Some (ProcessExit 1, consoleError (parseAndFormatApiError env e) st3)) \<and>
        (withinBudget env (st''\<lparr>currentMessages := [userTurn ps'']\<rparr>) \<longrightarrow>
           (\<exists>evs. events (stateIn id (turn env pid (st''\<lparr>currentMessages := [userTurn ps'']\<rparr>)))
                  = events st'' @ SendMessageStream ps'' # evs))"
    if w: "withinBudget env s"
      and r: "requestTurn env pid (s\<lparr>turnCount := turnCount s + 1\<rparr>) = Proceed (pre @ fc # rest, st0)"
      and p: "dispatchCalls env pid pre ([], st0) = Proceed (ps, st)"
      and q: "dispatchCalls env pid rest (appendResponseParts resp ps, st') = Proceed (ps'', st'')"
    for ps'' st'' s
  proof -
    let ?next = "st''\<lparr>currentMessages := [userTurn ps'']\<rparr>"
    have dt: "dispatchTurn env pid (pre @ fc # rest) st0 = Proceed ?next"
      using p q by (simp add: dispatchTurn_def dispatchCalls_append dc)
    have t: "turn env pid s = Proceed ?next"
      using w r dt by (simp add: turn_unfold)
    have l: "whileLoop env pid s = whileLoop env pid ?next"
      using t by (rule whileLoop_Proceed)
    have f: "\<exists>evs. events (stateIn id (turn env pid ?next)) = events st'' @ SendMessageStream ps'' # evs"
      if "withinBudget env ?next"
      using turn_first_event [OF that, of pid]
      by (simp add: firstMessageParts_def userTurn_def)
    show ?thesis
      using t f l whileLoop_unfold [of env pid ?next] by simp
  qed
  show ?thesis
    using ev dc all goal by blast
qed

theorem tool_not_found_continues_witness:
  "\<exists>st. runNonInteractive envNotFoundOnce ''go'' ''p'' = Some (Resolved, st) \<and>
        modelRequests (events st) = [[textPart ''go''], [exResultPart]] \<and>
        length (toolCalls (events st)) = 1"
proof -
  let ?s = "initialState ''go''"
  let ?st0 = "\<lparr>turnCount = 1, currentMessages = [userTurn [textPart ''go'']],
               events = [SendMessageStream [textPart ''go'']], time = 3\<rparr>"
  have E: "envNotFoundOnce\<lparr>aborted := (\<lambda>t. False)\<rparr> = envNotFoundOnce"
    by (simp add: envNotFoundOnce_def exEnv_def)
  have hw: "withinBudget envNotFoundOnce ?s"
    by (simp add: withinBudget_def envNotFoundOnce_def exEnv_def)
  have hr: "requestTurn envNotFoundOnce ''p'' (?s\<lparr>turnCount := turnCount ?s + 1\<rparr>)
              = Proceed ([] @ exCall # [], ?st0)"
    by (simp add: envNotFoundOnce_def driver_defs example_defs)
  have hp: "dispatchCalls envNotFoundOnce ''p'' [] ([], ?st0) = Proceed ([], ?st0)"
    by simp
  have h1: "toolResponseOf envNotFoundOnce ''p'' exCall ?st0 = Inr exNotFound"
    by (simp add: toolResponseOf_def envNotFoundOnce_def exEnv_def)
  have h2: "error exNotFound = Some \<lparr>message = ''Tool ls not found in registry.''\<rparr>"
    by (simp add: exNotFound_def)
  have h3: "includesStr (message \<lparr>message = ''Tool ls not found in registry.''\<rparr>)
              ''not found in registry''"
    by simp
  have a: "appendResponseParts exNotFound [] = [exResultPart]"
    by (simp add: appendResponseParts_def exNotFound_def truthyPart_def)
  obtain st' ts1 ts2 where
    ev: "events st' = events ?st0 @
             [StdoutWrite (startLine ts1 (nameText exCall) (formatToolArgs (Some (argsOrEmpty exCall)))),
              ExecuteToolCall (requestOf envNotFoundOnce ''p'' exCall ?st0) (Inr exNotFound),
              StdoutWrite (failedLine ts2 (nameText exCall)
                 (errorMessageOf exNotFound \<lparr>message = ''Tool ls not found in registry.''\<rparr>)),
              ConsoleError (''Error executing tool '' @ nameText exCall @ '': ''
                 @ displayOrMessage exNotFound \<lparr>message = ''Tool ls not found in registry.''\<rparr>)]"
    and loop: "\<forall>ps'' st'' s.
              withinBudget envNotFoundOnce s \<and>
              requestTurn envNotFoundOnce ''p'' (s\<lparr>turnCount := turnCount s + 1\<rparr>)
                = Proceed ([] @ exCall # [], ?st0) \<and>
              dispatchCalls envNotFoundOnce ''p'' [] ([], ?st0) = Proceed ([], ?st0) \<and>
              dispatchCalls envNotFoundOnce ''p'' [] (appendResponseParts exNotFound [], st')
                = Proceed (ps'', st'')
              \<longrightarrow> turn envNotFoundOnce ''p'' s = Proceed (st''\<lparr>currentMessages := [userTurn ps'']\<rparr>) \<and>
                  whileLoop envNotFoundOnce ''p'' s =
                    (case turn envNotFoundOnce ''p'' (st''\<lparr>currentMessages := [userTurn ps'']\<rparr>) of
                       Proceed st3 \<Rightarrow> whileLoop envNotFoundOnce ''p'' st3
                     | Returned st3 \<Rightarrow> Some (Resolved, finallyBlock envNotFoundOnce st3)
                     | Exited code st3 \<Rightarrow> Some (ProcessExit code, st3)
                     | Thrown e st3 \<Rightarrow>
                         Some (ProcessExit 1,
                               consoleError (parseAndFormatApiError envNotFoundOnce e) st3)) \<and>
                  (withinBudget envNotFoundOnce (st''\<lparr>currentMessages := [userTurn ps'']\<rparr>) \<longrightarrow>
                     (\<exists>evs. events (stateIn id (turn envNotFoundOnce ''p''
                                (st''\<lparr>currentMessages := [userTurn ps'']\<rparr>)))
                            = events st'' @ SendMessageStream ps'' # evs))"
    using tool_not_found_continues [OF h1 h2 h3, of "[]" "[]" "[]" ?st0] by blast
  let ?next = "st'\<lparr>currentMessages := [userTurn [exResultPart]]\<rparr>"
  have w: "whileLoop envNotFoundOnce ''p'' ?s =
             (case turn envNotFoundOnce ''p'' ?next of
                Proceed st3 \<Rightarrow> whileLoop envNotFoundOnce ''p'' st3
              | Returned st3 \<Rightarrow> Some (Resolved, finallyBlock envNotFoundOnce st3)
              | Exited code st3 \<Rightarrow> Some (ProcessExit code, st3)
              | Thrown e st3 \<Rightarrow>
                  Some (ProcessExit 1, consoleError (parseAndFormatApiError envNotFoundOnce e) st3))"
    using loop hw hr hp a by auto
  have tn: "turn envNotFoundOnce ''p'' ?next =
              Returned (stdoutWrite newline (tick (tick (emit (SendMessageStream [exResultPart])
                 (?next\<lparr>turnCount := turnCount ?next + 1\<rparr>)))))"
    by (simp add: envNotFoundOnce_def exEnv_def turn_def requestTurn_def dispatchTurn_def
        firstMessageParts_def userTurn_def textPart_def exResultPart_def Let_def)
  have f: "\<And>st. finallyBlock envNotFoundOnce st = st"
    by (simp add: finallyBlock_def envNotFoundOnce_def exEnv_def)
  have "runNonInteractive envNotFoundOnce ''go'' ''p'' =
          Some (Resolved, stdoutWrite newline (tick (tick (emit (SendMessageStream [exResultPart])
                 (?next\<lparr>turnCount := turnCount ?next + 1\<rparr>)))))"
    by (simp add: runNonInteractive_def E w tn f)
  moreover have "modelRequests (events (stdoutWrite newline (tick (tick (emit (SendMessageStream [exResultPart])
                 (?next\<lparr>turnCount := turnCount ?next + 1\<rparr>)))))) = [[textPart ''go''], [exResultPart]]"
    by (simp add: events_stdoutWrite events_tick events_emit ev modelRequests_append)
  moreover have "length (toolCalls (events (stdoutWrite newline (tick (tick (emit (SendMessageStream [exResultPart])
                 (?next\<lparr>turnCount := turnCount ?next + 1\<rparr>))))))) = 1"
    by (simp add: events_stdoutWrite events_tick events_emit ev toolCalls_append)
  ultimately show ?thesis by blast
qed

text \<open>
  The claim as written fails when a later call of the same turn ends the process: here
  the first call is answered "not found in registry" and the second "permission denied";
  the process exits with status 1, and no next turn is made or sent.
\<close>

theorem tool_not_found_then_fatal_counterexample:
  "outcomeOf (runNonInteractive envMixed ''go'' ''p'') = Some (ProcessExit 1) \<and>
   eventsOf (runNonInteractive envMixed ''go'' ''p'') =
     [SendMessageStream [textPart ''go''],
      StdoutWrite (startLine ''12:00:00'' ''ls'' (''(path: '' @ [CHR 0x22] @ ''/a'' @ [CHR 0x22] @ '')'')),
      ExecuteToolCall \<lparr>callId = ''ls-1700000000000'', name = Some ''ls'',
                        args = [(''path'', JsString ''/a'')],
                        isClientInitiated = False, prompt_id = ''p''\<rparr> (Inr exNotFound),
      StdoutWrite (failedLine ''12:00:00'' ''ls'' ''Tool ls not found in registry.''),
      ConsoleError ''Error executing tool ls: Tool ls not found in registry.'',
      StdoutWrite (startLine ''12:00:00'' ''ls'' (''(path: '' @ [CHR 0x22] @ ''/b'' @ [CHR 0x22] @ '')'')),
      ExecuteToolCall \<lparr>callId = ''ls-1700000000000'', name = Some ''ls'',
                        args = [(''path'', JsString ''/b'')],
                        isClientInitiated = False, prompt_id = ''p''\<rparr> (Inr exFatal),
      StdoutWrite (failedLine ''12:00:00'' ''ls'' ''permission denied''),
      ConsoleError ''Error executing tool ls: permission denied'']"
proof -
  have r: "runNonInteractive envMixed ''go'' ''p'' =
      Some (ProcessExit 1,
        \<lparr>turnCount = 1, currentMessages = [userTurn [textPart ''go'']],
         events =
           [SendMessageStream [textPart ''go''],
            StdoutWrite (startLine ''12:00:00'' ''ls'' (''(path: '' @ [CHR 0x22] @ ''/a'' @ [CHR 0x22] @ '')'')),
            ExecuteToolCall \<lparr>callId = ''ls-1700000000000'', name = Some ''ls'',
                        args = [(''path'', JsString ''/a'')],
                        isClientInitiated = False, prompt_id = ''p''\<rparr> (Inr exNotFound),
            StdoutWrite (failedLine ''12:00:00'' ''ls'' ''Tool ls not found in registry.''),
            ConsoleError ''Error executing tool ls: Tool ls not found in registry.'',
            StdoutWrite (startLine ''12:00:00'' ''ls'' (''(path: '' @ [CHR 0x22] @ ''/b'' @ [CHR 0x22] @ '')'')),
            ExecuteToolCall \<lparr>callId = ''ls-1700000000000'', name = Some ''ls'',
                        args = [(''path'', JsString ''/b'')],
                        isClientInitiated = False, prompt_id = ''p''\<rparr> (Inr exFatal),
            StdoutWrite (failedLine ''12:00:00'' ''ls'' ''permission denied''),
            ConsoleError ''Error executing tool ls: permission denied''],
         time = 11\<rparr>)"
    by (simp add: runNonInteractive_def whileLoop.simps envMixed_def driver_defs example_defs
        line_defs showNat_example)
  show ?thesis
    by (simp add: r outcomeOf_def eventsOf_def)
qed

text \<open>
  C2. When the dispatcher answers a call with an error whose message does not contain
  "not found in registry", the process ends with exit status 1 right after the failure
  line and the error line of that call: the loop over the calls ends there whatever calls
  remain, so none of them is dispatched, and so do the turn and the run.
\<close>

theorem fatal_tool_error_exits:
  assumes "toolResponseOf env pid fc st = Inr resp"
    and "error resp = Some err"
    and "\<not> includesStr (message err) ''not found in registry''"
  shows "\<exists>st' ts1 ts2.
           dispatchCall env pid fc (ps, st) = Exited 1 st' \<and>
           events st' = events st @
             [StdoutWrite (startLine ts1 (nameText fc) (formatToolArgs (Some (argsOrEmpty fc)))),
              ExecuteToolCall (requestOf env pid fc st) (Inr resp),
              StdoutWrite (failedLine ts2 (nameText fc) (errorMessageOf resp err)),
              ConsoleError (''Error executing tool '' @ nameText fc @ '': ''
                            @ displayOrMessage resp err)] \<and>
           dispatchCalls env pid (fc # rest) (ps, st) = Exited 1 st' \<and>
           (dispatchCalls env pid pre ([], st0) = Proceed (ps, st) \<longrightarrow>
              dispatchTurn env pid (pre @ fc # rest) st0 = Exited 1 st' \<and>
              (\<forall>s. turn env pid s = dispatchTurn env pid (pre @ fc # rest) st0 \<longrightarrow>
                   whileLoop env pid s = Some (ProcessExit 1, st')))"
proof -
  obtain st' ts1 ts2 where ev: "events st' = events st @
             [StdoutWrite (startLine ts1 (nameText fc) (formatToolArgs (Some (argsOrEmpty fc)))),
              ExecuteToolCall (requestOf env pid fc st) (Inr resp),
              StdoutWrite (failedLine ts2 (nameText fc) (errorMessageOf resp err)),
              ConsoleError (''Error executing tool '' @ nameText fc @ '': ''
                            @ displayOrMessage resp err)]"
    and dc: "dispatchCall env pid fc (ps, st) = Exited 1 st'"
    using dispatchCall_error [OF assms(1,2), of ps] assms(3) by auto
  have all: "dispatchCalls env pid (fc # rest) (ps, st) = Exited 1 st'"
    by (simp add: dc)
  have dt: "dispatchTurn env pid (pre @ fc # rest) st0 = Exited 1 st'"
    if "dispatchCalls env pid pre ([], st0) = Proceed (ps, st)"
    using that by (simp add: dispatchTurn_def dispatchCalls_append dc)
  have "whileLoop env pid s = Some (ProcessExit 1, st')"
    if "dispatchCalls env pid pre ([], st0) = Proceed (ps, st)"
      and "turn env pid s = dispatchTurn env pid (pre @ fc # rest) st0"
    for s
    using that dt by (simp add: whileLoop_Exited)
  with dt all ev dc show ?thesis by blast
qed

theorem fatal_tool_error_exits_witness:
  "\<exists>st'. dispatchCalls envFatal ''p'' [exCall, exCall] ([], exState) = Exited 1 st' \<and>
         length (toolCalls (events st')) = 1"
proof -
  have h1: "toolResponseOf envFatal ''p'' exCall exState = Inr exFatal"
    by (simp add: toolResponseOf_def envFatal_def exEnv_def)
  have h2: "error exFatal = Some \<lparr>message = ''permission denied''\<rparr>"
    by (simp add: exFatal_def)
  have h3: "\<not> includesStr (message \<lparr>message = ''permission denied''\<rparr>) ''not found in registry''"
    by simp
  have e: "events exState = []"
    by (simp add: exState_def)
  show ?thesis
    using fatal_tool_error_exits [OF h1 h2 h3, of "[]" "[exCall]" "[]" exState] e by auto
qed

subsection \<open>The stream of a turn\<close>

lemma toolCalls_chunkWrites: "toolCalls (chunkWrites resp) = []"
  by (simp add: chunkWrites_def split: option.splits)

lemma modelRequests_chunkWrites: "modelRequests (chunkWrites resp) = []"
  by (simp add: chunkWrites_def split: option.splits)

lemma consumeStream_trace:
  "toolCalls (events (stateIn snd (consumeStream env items (calls, st)))) = toolCalls (events st)"
proof (induction items arbitrary: calls st)
  case Nil
  show ?case by (simp add: events_tick)
next
  case (Cons item items)
  show ?case
  proof (cases item)
    case (Chunk resp)
    then show ?thesis
      using Cons [of "calls @ chunkCalls (Chunk resp)"
                     "(tick st)\<lparr>events := events (tick st) @ chunkWrites resp\<rparr>"]
      by (simp add: Let_def events_consoleError events_tick toolCalls_append processChunk_eq
          toolCalls_chunkWrites)
  next
    case (StreamError e)
    then show ?thesis by (simp add: events_tick)
  qed
qed

lemma consumeStream_calls:
  "consumeStream env items (calls, st) = Proceed (calls', st') \<Longrightarrow>
   calls' = calls @ concat (map chunkCalls items)"
proof (induction items arbitrary: calls st)
  case Nil
  then show ?case by simp
next
  case (Cons item items)
  show ?case
  proof (cases item)
    case (Chunk resp)
    then show ?thesis
      using Cons.prems
        Cons.IH [of "calls @ chunkCalls (Chunk resp)"
                    "(tick st)\<lparr>events := events (tick st) @ chunkWrites resp\<rparr>"]
      by (simp add: Let_def processChunk_eq split: if_splits)
  next
    case (StreamError e)
    then show ?thesis using Cons.prems by simp
  qed
qed

lemma consumeStream_cancelled:
  "\<forall>j<length pre. \<not> aborted env (time st + Suc j) \<Longrightarrow>
   aborted env (time st + Suc (length pre)) \<Longrightarrow>
   \<exists>st'. consumeStream env (map Chunk pre @ Chunk r # rest) (calls, st) = Returned st' \<and>
         events st' = events st @ concat (map chunkWrites pre)
                      @ [ConsoleError ''Operation cancelled.'']"
proof (induction pre arbitrary: calls st)
  case Nil
  then show ?case
    by (simp add: Let_def tick_def events_consoleError)
next
  case (Cons p pre)
  let ?st1 = "(tick st)\<lparr>events := events (tick st) @ chunkWrites p\<rparr>"
  have na: "\<not> aborted env (time (tick st))"
    using Cons.prems(1) by (auto simp: tick_def)
  have t1: "time ?st1 = Suc (time st)" by (simp add: tick_def)
  have "\<exists>st'. consumeStream env (map Chunk pre @ Chunk r # rest) (calls @ chunkCalls (Chunk p), ?st1)
                = Returned st' \<and>
         events st' = events ?st1 @ concat (map chunkWrites pre)
                      @ [ConsoleError ''Operation cancelled.'']"
  proof (rule Cons.IH)
    show "\<forall>j<length pre. \<not> aborted env (time ?st1 + Suc j)"
      using Cons.prems(1) t1 by auto
    show "aborted env (time ?st1 + Suc (length pre))"
      using Cons.prems(2) t1 by simp
  qed
  then show ?case
    using na by (simp add: Let_def processChunk_eq events_tick)
qed

subsection \<open>Cancellation\<close>

text \<open>
  C4. In a turn that asks the model, let the stream give the chunks \<open>pre\<close>, then a chunk
  \<open>r\<close>, then whatever. If the signal is not set when each chunk of \<open>pre\<close> is
  checked and is set when \<open>r\<close> is checked, that is, it became set after the driver had
  processed the \<open>N\<close> chunks of \<open>pre\<close>, the turn returns: it has written the texts of
  \<open>pre\<close> and nothing of \<open>r\<close> or of what follows, it has dispatched no call, its last
  line is "Operation cancelled." on standard error, and the loop ends with the function
  returning. The theorem is about the loop with the signal as a parameter; in a run as the
  code stands nothing sets the signal.
\<close>

theorem cancellation_mid_stream:
  assumes "withinBudget env st"
    and "sendMessageStream env (time st) (firstMessageParts (currentMessages st)) pid
           = Inr (map Chunk pre @ Chunk r # rest)"
    and "\<forall>j<length pre. \<not> aborted env (time st + 1 + Suc j)"
    and "aborted env (time st + 1 + Suc (length pre))"
  shows "\<exists>st'. turn env pid st = Returned st' \<and>
           events st' = events st @ [SendMessageStream (firstMessageParts (currentMessages st))]
                        @ concat (map chunkWrites pre)
                        @ [ConsoleError ''Operation cancelled.''] \<and>
           whileLoop env pid st = Some (Resolved, finallyBlock env st')"
proof -
  let ?st1 = "st\<lparr>turnCount := turnCount st + 1\<rparr>"
  let ?st2 = "tick (emit (SendMessageStream (firstMessageParts (currentMessages ?st1))) ?st1)"
  have t2: "time ?st2 = time st + 1" by (simp add: tick_def emit_def)
  have e2: "events ?st2 = events st @ [SendMessageStream (firstMessageParts (currentMessages st))]"
    by (simp add: events_tick events_emit)
  have "\<exists>st'. consumeStream env (map Chunk pre @ Chunk r # rest) ([], ?st2) = Returned st' \<and>
         events st' = events ?st2 @ concat (map chunkWrites pre)
                      @ [ConsoleError ''Operation cancelled.'']"
    using assms(3,4) by (intro consumeStream_cancelled) (simp_all only: t2)
  then obtain st' where c: "consumeStream env (map Chunk pre @ Chunk r # rest) ([], ?st2) = Returned st'"
    and e: "events st' = events ?st2 @ concat (map chunkWrites pre)
                      @ [ConsoleError ''Operation cancelled.'']"
    by blast
  have "requestTurn env pid ?st1 = Returned st'"
    using requestTurn_stream [of env ?st1 pid "map Chunk pre @ Chunk r # rest"] assms(2) c by simp
  then have t: "turn env pid st = Returned st'"
    using assms(1) by (simp add: turn_unfold)
  then have "whileLoop env pid st = Some (Resolved, finallyBlock env st')"
    by (rule whileLoop_Returned)
  with t e e2 show ?thesis by auto
qed

theorem cancellation_mid_stream_witness:
  "\<exists>st'. turn envCancel ''p'' (initialState ''go'') = Returned st' \<and>
         events st' = [SendMessageStream [textPart ''go''], StdoutWrite ''Hi'',
                       ConsoleError ''Operation cancelled.''] \<and>
         whileLoop envCancel ''p'' (initialState ''go'') = Some (Resolved, st')"
proof -
  have h1: "withinBudget envCancel (initialState ''go'')"
    by (simp add: withinBudget_def envCancel_def exEnv_def)
  have h2: "sendMessageStream envCancel (time (initialState ''go''))
              (firstMessageParts (currentMessages (initialState ''go''))) ''p''
            = Inr (map Chunk [exTextChunk] @ Chunk exCallChunk # [Chunk exTextChunk])"
    by (simp add: envCancel_def exEnv_def)
  have h3: "\<forall>j<length [exTextChunk]. \<not> aborted envCancel (time (initialState ''go'') + 1 + Suc j)"
    by (simp add: envCancel_def exEnv_def initialState_def)
  have h4: "aborted envCancel (time (initialState ''go'') + 1 + Suc (length [exTextChunk]))"
    by (simp add: envCancel_def exEnv_def initialState_def)
  have w: "chunkWrites exTextChunk = [StdoutWrite ''Hi'']"
    by (simp add: chunkWrites_def getResponseText_def exTextChunk_def truthyText_def textOf_def)
  have f: "\<And>st. finallyBlock envCancel st = st"
    by (simp add: finallyBlock_def envCancel_def exEnv_def)
  have m: "firstMessageParts (currentMessages (initialState ''go'')) = [textPart ''go'']"
    by (simp add: initialState_def firstMessageParts_def userTurn_def)
  have e: "events (initialState ''go'') = []"
    by (simp add: initialState_def)
  show ?thesis
    using cancellation_mid_stream [OF h1 h2 h3 h4] w f m e by simp
qed

subsection \<open>The calls of a turn in the trace\<close>

lemma toolCalls_display:
  "toolCalls (events (displayToolCallInfo env n a s rd em st)) = toolCalls (events st)"
  by (simp add: displayToolCallInfo_def Let_def stdoutWrite_def events_emit events_tick toolCalls_append
      split: status.splits option.splits tool_result_display.splits)

lemma modelRequests_display:
  "modelRequests (events (displayToolCallInfo env n a s rd em st)) = modelRequests (events st)"
  by (simp add: displayToolCallInfo_def Let_def stdoutWrite_def events_emit events_tick
      modelRequests_append
      split: status.splits option.splits tool_result_display.splits)

lemma turnCount_display:
  "turnCount (displayToolCallInfo env n a s rd em st) = turnCount st"
  by (simp add: displayToolCallInfo_def Let_def stdoutWrite_def emit_def tick_def
      split: status.splits option.splits tool_result_display.splits)

lemma pushParts_append: "pushParts qs ps = ps @ pushParts qs []"
proof (induction qs arbitrary: ps)
  case Nil
  show ?case by simp
next
  case (Cons q qs)
  show ?case
  proof (cases q)
    case (PartString s)
    then show ?thesis using Cons [of "ps @ [textPart s]"] Cons [of "[textPart s]"] by simp
  next
    case (PartObject p)
    then show ?thesis using Cons [of "ps @ [p]"] Cons [of "[p]"] by simp
  next
    case PartNullish
    then show ?thesis using Cons [of ps] by simp
  qed
qed

lemma appendResponseParts_append:
  "appendResponseParts r ps = ps @ appendResponseParts r []"
  using pushParts_append [of _ ps]
  by (simp add: appendResponseParts_def split: option.splits part_list_union.splits)

lemma toolCalls_reportResponse:
  "toolCalls (events (stateIn id (reportResponse env fc r st))) = toolCalls (events st)"
  by (simp add: reportResponse_def Let_def events_consoleError toolCalls_append toolCalls_display
      split: option.splits)

lemma toolCalls_atDispatch:
  "toolCalls (events (atDispatch env pid fc st)) = toolCalls (events st)"
  by (simp add: atDispatch_def toolCalls_display events_buildRequest)

lemma matchesCall_requestOf: "matchesCall (requestOf env pid fc st) fc"
  by (simp add: matchesCall_def requestOf_def buildRequest_def makeCallId_def
      split: option.splits prod.splits)

lemma dispatchCall_trace:
  "toolCalls (events (stateIn snd (dispatchCall env pid fc (ps, st)))) =
     toolCalls (events st) @ [(requestOf env pid fc st, toolResponseOf env pid fc st)]"
proof (cases "toolResponseOf env pid fc st")
  case (Inl e)
  then show ?thesis
    by (simp add: dispatchCall_unfold Let_def events_tick events_emit toolCalls_append
        toolCalls_atDispatch)
next
  case (Inr r)
  define st3 where "st3 = tick (emit (ExecuteToolCall (requestOf env pid fc st) (Inr r))
                  (atDispatch env pid fc st))"
  have "toolCalls (events (stateIn id (reportResponse env fc r st3))) = toolCalls (events st3)"
    by (rule toolCalls_reportResponse)
  moreover have "toolCalls (events st3) = toolCalls (events st) @ [(requestOf env pid fc st, Inr r)]"
    by (simp add: st3_def events_tick events_emit toolCalls_append toolCalls_atDispatch)
  ultimately show ?thesis
    using Inr unfolding st3_def
    by (cases "reportResponse env fc r (tick (emit (ExecuteToolCall (requestOf env pid fc st) (Inr r))
                  (atDispatch env pid fc st)))")
       (simp_all add: dispatchCall_unfold Let_def)
qed

lemma dispatchCall_Proceed:
  "dispatchCall env pid fc (ps, st) = Proceed (ps', st') \<Longrightarrow>
   ps' = ps @ partsOfAnswer (toolResponseOf env pid fc st)"
  using appendResponseParts_append [of _ ps]
  by (auto simp add: dispatchCall_unfold Let_def partsOfAnswer_def
      split: sum.splits control.splits)

lemma dispatchCalls_trace:
  "\<exists>tcs. toolCalls (events (stateIn snd (dispatchCalls env pid calls (ps, st)))) =
            toolCalls (events st) @ tcs \<and>
          list_all2 matchesCall (map fst tcs) (take (length tcs) calls) \<and>
          (\<forall>ps' st'. dispatchCalls env pid calls (ps, st) = Proceed (ps', st') \<longrightarrow>
             length tcs = length calls \<and> ps' = ps @ concat (map (partsOfAnswer \<circ> snd) tcs))"
proof (induction calls arbitrary: ps st)
  case Nil
  show ?case by simp
next
  case (Cons fc rest)
  let ?tc = "(requestOf env pid fc st, toolResponseOf env pid fc st)"
  show ?case
  proof (cases "dispatchCall env pid fc (ps, st)")
    case (Proceed acc)
    obtain ps1 st1 where acc: "acc = (ps1, st1)" by (cases acc)
    have t1: "toolCalls (events st1) = toolCalls (events st) @ [?tc]"
      using dispatchCall_trace [of env pid fc ps st] Proceed acc by simp
    have p1: "ps1 = ps @ partsOfAnswer (toolResponseOf env pid fc st)"
      using dispatchCall_Proceed Proceed acc by simp
    from Cons [of ps1 st1] obtain tcs where
      a: "toolCalls (events (stateIn snd (dispatchCalls env pid rest (ps1, st1)))) =
            toolCalls (events st1) @ tcs"
      and b: "list_all2 matchesCall (map fst tcs) (take (length tcs) rest)"
      and c: "\<forall>ps' st'. dispatchCalls env pid rest (ps1, st1) = Proceed (ps', st') \<longrightarrow>
             length tcs = length rest \<and> ps' = ps1 @ concat (map (partsOfAnswer \<circ> snd) tcs)"
      by blast
    have "toolCalls (events (stateIn snd (dispatchCalls env pid (fc # rest) (ps, st)))) =
            toolCalls (events st) @ (?tc # tcs)"
      using a t1 Proceed acc by simp
    moreover have "list_all2 matchesCall (map fst (?tc # tcs)) (take (length (?tc # tcs)) (fc # rest))"
      using b matchesCall_requestOf by simp
    moreover have "\<forall>ps' st'. dispatchCalls env pid (fc # rest) (ps, st) = Proceed (ps', st') \<longrightarrow>
             length (?tc # tcs) = length (fc # rest) \<and>
             ps' = ps @ concat (map (partsOfAnswer \<circ> snd) (?tc # tcs))"
      using c p1 Proceed acc by simp
    ultimately show ?thesis by blast
  next
    case (Returned s)
    have "toolCalls (events s) = toolCalls (events st) @ [?tc]"
      using dispatchCall_trace [of env pid fc ps st] Returned by simp
    then show ?thesis
      using Returned matchesCall_requestOf
      by (intro exI [of _ "[?tc]"]) simp
  next
    case (Exited code s)
    have "toolCalls (events s) = toolCalls (events st) @ [?tc]"
      using dispatchCall_trace [of env pid fc ps st] Exited by simp
    then show ?thesis
      using Exited matchesCall_requestOf
      by (intro exI [of _ "[?tc]"]) simp
  next
    case (Thrown e s)
    have "toolCalls (events s) = toolCalls (events st) @ [?tc]"
      using dispatchCall_trace [of env pid fc ps st] Thrown by simp
    then show ?thesis
      using Thrown matchesCall_requestOf
      by (intro exI [of _ "[?tc]"]) simp
  qed
qed

subsection \<open>Order of dispatch\<close>

text \<open>
  C8. In a turn, the dispatcher calls recorded in the trace are calls for the function
  calls of the stream in their order of arrival, one after the other, each with its
  answer before the next request is built: the requests match a prefix of the accumulated
  calls, position by position. When the turn ends by making a new user turn, every
  accumulated call has been dispatched, and the parts of that user turn are the parts of
  the answers, concatenated in the order of the calls.
\<close>

theorem calls_dispatched_in_order:
  assumes "sendMessageStream env (time st) (firstMessageParts (currentMessages st)) pid = Inr items"
  shows "\<exists>tcs. toolCalls (events (stateIn id (turn env pid st))) = toolCalls (events st) @ tcs \<and>
           list_all2 matchesCall (map fst tcs) (take (length tcs) (concat (map chunkCalls items))) \<and>
           (\<forall>st'. turn env pid st = Proceed st' \<longrightarrow>
              length tcs = length (concat (map chunkCalls items)) \<and>
              currentMessages st' = [userTurn (concat (map (partsOfAnswer \<circ> snd) tcs))])"
proof (cases "withinBudget env st")
  case False
  then have "turn env pid st = Returned (consoleError maxTurnsMessage (st\<lparr>turnCount := turnCount st + 1\<rparr>))"
    by (auto simp add: turn_def withinBudget_def Let_def)
  then show ?thesis
    by (intro exI [of _ "[]"]) (simp add: events_consoleError toolCalls_append)
next
  case True
  let ?st1 = "st\<lparr>turnCount := turnCount st + 1\<rparr>"
  let ?st2 = "tick (emit (SendMessageStream (firstMessageParts (currentMessages ?st1))) ?st1)"
  have rt: "requestTurn env pid ?st1 = consumeStream env items ([], ?st2)"
    using requestTurn_stream [of env ?st1 pid items] assms by simp
  have tc2: "toolCalls (events ?st2) = toolCalls (events st)"
    by (simp add: events_tick events_emit toolCalls_append)
  have cs: "toolCalls (events (stateIn snd (consumeStream env items ([], ?st2)))) = toolCalls (events st)"
    using consumeStream_trace [of env items "[]" ?st2] tc2 by simp
  show ?thesis
  proof (cases "consumeStream env items ([], ?st2)")
    case (Proceed acc)
    obtain calls st3 where acc: "acc = (calls, st3)" by (cases acc)
    have calls: "calls = concat (map chunkCalls items)"
      using consumeStream_calls [of env items "[]" ?st2 calls st3] Proceed acc by simp
    have t3: "toolCalls (events st3) = toolCalls (events st)"
      using cs Proceed acc by simp
    have tu: "turn env pid st = dispatchTurn env pid calls st3"
      using True rt Proceed acc by (simp add: turn_unfold)
    show ?thesis
    proof (cases "calls = []")
      case True
      then have "turn env pid st = Returned (stdoutWrite newline st3)"
        using tu by (simp add: dispatchTurn_def)
      then show ?thesis
        using t3 by (intro exI [of _ "[]"]) (simp add: events_stdoutWrite toolCalls_append)
    next
      case False
      obtain tcs where
        a: "toolCalls (events (stateIn snd (dispatchCalls env pid calls ([], st3)))) =
            toolCalls (events st3) @ tcs"
        and b: "list_all2 matchesCall (map fst tcs) (take (length tcs) calls)"
        and c: "\<forall>ps' st'. dispatchCalls env pid calls ([], st3) = Proceed (ps', st') \<longrightarrow>
             length tcs = length calls \<and> ps' = [] @ concat (map (partsOfAnswer \<circ> snd) tcs)"
        using dispatchCalls_trace [of env pid calls "[]" st3] by blast
      have d: "turn env pid st =
            (case dispatchCalls env pid calls ([], st3) of
               Proceed (toolResponseParts, st1) \<Rightarrow>
                 Proceed (st1\<lparr>currentMessages := [userTurn toolResponseParts]\<rparr>)
             | Returned s \<Rightarrow> Returned s
             | Exited code s \<Rightarrow> Exited code s
             | Thrown e s \<Rightarrow> Thrown e s)"
        using tu False by (simp add: dispatchTurn_def)
      have "toolCalls (events (stateIn id (turn env pid st))) = toolCalls (events st) @ tcs"
        using a t3 d by (cases "dispatchCalls env pid calls ([], st3)") auto
      moreover have "\<forall>st'. turn env pid st = Proceed st' \<longrightarrow>
              length tcs = length calls \<and>
              currentMessages st' = [userTurn (concat (map (partsOfAnswer \<circ> snd) tcs))]"
        using c d by (cases "dispatchCalls env pid calls ([], st3)") auto
      ultimately show ?thesis using b calls by blast
    qed
  next
    case (Returned s)
    then have "turn env pid st = Returned s" using True rt by (simp add: turn_unfold)
    then show ?thesis
      using cs Returned by (intro exI [of _ "[]"]) simp
  next
    case (Exited code s)
    then have "turn env pid st = Exited code s" using True rt by (simp add: turn_unfold)
    then show ?thesis
      using cs Exited by (intro exI [of _ "[]"]) simp
  next
    case (Thrown e s)
    then have "turn env pid st = Thrown e s" using True rt by (simp add: turn_unfold)
    then show ?thesis
      using cs Thrown by (intro exI [of _ "[]"]) simp
  qed
qed

theorem calls_dispatched_in_order_witness:
  "map (args \<circ> fst) (toolCalls (events (stateIn id (turn envEcho ''p'' (initialState ''go'')))))
     = [[(''path'', JsString ''/a'')], [(''path'', JsString ''/b'')]] \<and>
   currentMessages (stateIn id (turn envEcho ''p'' (initialState ''go'')))
     = [userTurn [textPart (''(path: '' @ [CHR 0x22] @ ''/a'' @ [CHR 0x22] @ '')''),
                  textPart (''(path: '' @ [CHR 0x22] @ ''/b'' @ [CHR 0x22] @ '')'')]]"
proof -
  have h: "sendMessageStream envEcho (time (initialState ''go''))
             (firstMessageParts (currentMessages (initialState ''go''))) ''p''
           = Inr [Chunk \<lparr>candidates = None, functionCalls = Some [exCallA]\<rparr>,
                  Chunk \<lparr>candidates = None, functionCalls = Some [exCallB]\<rparr>]"
    by (simp add: envEcho_def exEnv_def)
  have ev: "toolCalls (events (stateIn id (turn envEcho ''p'' (initialState ''go'')))) =
      [(\<lparr>callId = ''ls-1700000000000'', name = Some ''ls'', args = [(''path'', JsString ''/a'')],
          isClientInitiated = False, prompt_id = ''p''\<rparr>,
        Inr \<lparr>error = None, resultDisplay = None,
             responseParts = Some (PartSingle (PartString
               (''(path: '' @ [CHR 0x22] @ ''/a'' @ [CHR 0x22] @ '')'')))\<rparr>),
       (\<lparr>callId = ''ls-1700000000000'', name = Some ''ls'', args = [(''path'', JsString ''/b'')],
          isClientInitiated = False, prompt_id = ''p''\<rparr>,
        Inr \<lparr>error = None, resultDisplay = None,
             responseParts = Some (PartSingle (PartString
               (''(path: '' @ [CHR 0x22] @ ''/b'' @ [CHR 0x22] @ '')'')))\<rparr>)]"
    by (simp add: driver_defs example_defs showNat_example)
  obtain st' where t: "turn envEcho ''p'' (initialState ''go'') = Proceed st'"
    by (simp add: driver_defs example_defs showNat_example)
  obtain tcs where
    1: "toolCalls (events (stateIn id (turn envEcho ''p'' (initialState ''go'')))) =
          toolCalls (events (initialState ''go'')) @ tcs"
    and 2: "\<forall>st'. turn envEcho ''p'' (initialState ''go'') = Proceed st' \<longrightarrow>
              length tcs = length (concat (map chunkCalls
                 [Chunk \<lparr>candidates = None, functionCalls = Some [exCallA]\<rparr>,
                  Chunk \<lparr>candidates = None, functionCalls = Some [exCallB]\<rparr>])) \<and>
              currentMessages st' = [userTurn (concat (map (partsOfAnswer \<circ> snd) tcs))]"
    using calls_dispatched_in_order [OF h] by blast
  have "tcs = toolCalls (events (stateIn id (turn envEcho ''p'' (initialState ''go''))))"
    using 1 by (simp add: initialState_def)
  then show ?thesis
    using 2 t ev
    by (simp add: partsOfAnswer_def appendResponseParts_def truthyPart_def)
qed

subsection \<open>The turn budget\<close>

lemma consumeStream_all:
  assumes "neverCancelled env"
  shows "\<exists>st'. consumeStream env (map Chunk rs) (calls, st) =
                 Proceed (calls @ concat (map chunkCalls (map Chunk rs)), st') \<and>
               modelRequests (events st') = modelRequests (events st) \<and>
               toolCalls (events st') = toolCalls (events st) \<and>
               turnCount st' = turnCount st"
proof (induction rs arbitrary: calls st)
  case Nil
  show ?case by (simp add: events_tick turnCount_simps)
next
  case (Cons r rs)
  let ?st1 = "(tick st)\<lparr>events := events (tick st) @ chunkWrites r\<rparr>"
  have na: "\<not> aborted env (time (tick st))"
    using assms by (simp add: neverCancelled_def)
  from Cons [of "calls @ chunkCalls (Chunk r)" ?st1]
  obtain st' where
    "consumeStream env (map Chunk rs) (calls @ chunkCalls (Chunk r), ?st1) =
       Proceed ((calls @ chunkCalls (Chunk r)) @ concat (map chunkCalls (map Chunk rs)), st')"
    "modelRequests (events st') = modelRequests (events ?st1)"
    "toolCalls (events st') = toolCalls (events ?st1)"
    "turnCount st' = turnCount ?st1"
    by blast
  then show ?case
    using na
    by (simp add: Let_def processChunk_eq events_tick turnCount_simps modelRequests_append
        toolCalls_append modelRequests_chunkWrites toolCalls_chunkWrites)
qed

lemma modelRequests_atDispatch:
  "modelRequests (events (atDispatch env pid fc st)) = modelRequests (events st)"
  by (simp add: atDispatch_def modelRequests_display events_buildRequest)

lemma turnCount_buildRequest: "turnCount (snd (buildRequest env pid fc st)) = turnCount st"
  by (simp add: buildRequest_def makeCallId_def turnCount_simps split: option.splits prod.splits)

lemma turnCount_atDispatch: "turnCount (atDispatch env pid fc st) = turnCount st"
  by (simp add: atDispatch_def turnCount_display turnCount_buildRequest)

lemma reportResponse_ok:
  assumes "\<forall>err. error resp = Some err \<longrightarrow> includesStr (message err) ''not found in registry''"
  shows "\<exists>st'. reportResponse env fc resp st = Proceed st' \<and>
               modelRequests (events st') = modelRequests (events st) \<and>
               toolCalls (events st') = toolCalls (events st) \<and>
               turnCount st' = turnCount st"
  using assms
  by (cases "error resp")
     (simp_all add: reportResponse_def Let_def events_consoleError modelRequests_append
        toolCalls_append modelRequests_display toolCalls_display turnCount_display
        turnCount_simps)

lemma dispatchCall_ok:
  assumes "noFatalToolError env"
  shows "\<exists>ps' st'. dispatchCall env pid fc (ps, st) = Proceed (ps', st') \<and>
               modelRequests (events st') = modelRequests (events st) \<and>
               length (toolCalls (events st')) = Suc (length (toolCalls (events st))) \<and>
               turnCount st' = turnCount st"
proof -
  obtain resp where r: "toolResponseOf env pid fc st = Inr resp"
    and ok: "\<forall>err. error resp = Some err \<longrightarrow> includesStr (message err) ''not found in registry''"
    using assms unfolding noFatalToolError_def toolResponseOf_def by blast
  define st3 where "st3 = tick (emit (ExecuteToolCall (requestOf env pid fc st) (Inr resp))
                  (atDispatch env pid fc st))"
  have m3: "modelRequests (events st3) = modelRequests (events st)"
    by (simp add: st3_def events_tick events_emit modelRequests_append modelRequests_atDispatch)
  have t3: "length (toolCalls (events st3)) = Suc (length (toolCalls (events st)))"
    by (simp add: st3_def events_tick events_emit toolCalls_append toolCalls_atDispatch)
  have c3: "turnCount st3 = turnCount st"
    by (simp add: st3_def turnCount_simps turnCount_atDispatch)
  obtain st' where "reportResponse env fc resp st3 = Proceed st'"
    "modelRequests (events st') = modelRequests (events st3)"
    "toolCalls (events st') = toolCalls (events st3)"
    "turnCount st' = turnCount st3"
    using reportResponse_ok [OF ok, of env fc st3] by blast
  then show ?thesis
    using r m3 t3 c3 by (simp add: dispatchCall_unfold Let_def st3_def [symmetric])
qed

lemma dispatchCalls_ok:
  assumes "noFatalToolError env"
  shows "\<exists>ps' st'. dispatchCalls env pid calls (ps, st) = Proceed (ps', st') \<and>
               modelRequests (events st') = modelRequests (events st) \<and>
               length (toolCalls (events st')) = length (toolCalls (events st)) + length calls \<and>
               turnCount st' = turnCount st"
proof (induction calls arbitrary: ps st)
  case Nil
  show ?case by simp
next
  case (Cons fc rest)
  obtain ps1 st1 where 1: "dispatchCall env pid fc (ps, st) = Proceed (ps1, st1)"
    "modelRequests (events st1) = modelRequests (events st)"
    "length (toolCalls (events st1)) = Suc (length (toolCalls (events st)))"
    "turnCount st1 = turnCount st"
    using dispatchCall_ok [OF assms, of pid fc ps st] by blast
  obtain ps' st' where 2: "dispatchCalls env pid rest (ps1, st1) = Proceed (ps', st')"
    "modelRequests (events st') = modelRequests (events st1)"
    "length (toolCalls (events st')) = length (toolCalls (events st1)) + length rest"
    "turnCount st' = turnCount st1"
    using Cons [of ps1 st1] by blast
  show ?case using 1 2 by simp
qed

lemma turn_continues:
  assumes "alwaysRequestsTool env pid" and "neverCancelled env" and "noFatalToolError env"
    and "withinBudget env st"
  shows "\<exists>st'. turn env pid st = Proceed st' \<and>
               turnCount st' = Suc (turnCount st) \<and>
               length (modelRequests (events st')) = Suc (length (modelRequests (events st))) \<and>
               length (toolCalls (events st')) > length (toolCalls (events st))"
proof -
  let ?st1 = "st\<lparr>turnCount := turnCount st + 1\<rparr>"
  let ?msg = "firstMessageParts (currentMessages ?st1)"
  let ?st2 = "tick (emit (SendMessageStream ?msg) ?st1)"
  obtain rs where s: "sendMessageStream env (time ?st1) ?msg pid = Inr (map Chunk rs)"
    and ne: "concat (map chunkCalls (map Chunk rs)) \<noteq> []"
    using assms(1) unfolding alwaysRequestsTool_def by blast
  have rt: "requestTurn env pid ?st1 = consumeStream env (map Chunk rs) ([], ?st2)"
    using requestTurn_stream [OF s] by simp
  obtain st3 where c: "consumeStream env (map Chunk rs) ([], ?st2) =
                 Proceed ([] @ concat (map chunkCalls (map Chunk rs)), st3)"
    and m3: "modelRequests (events st3) = modelRequests (events ?st2)"
    and t3: "toolCalls (events st3) = toolCalls (events ?st2)"
    and c3: "turnCount st3 = turnCount ?st2"
    using consumeStream_all [OF assms(2), of rs "[]" ?st2] by blast
  let ?calls = "concat (map chunkCalls (map Chunk rs))"
  obtain ps' st4 where d: "dispatchCalls env pid ?calls ([], st3) = Proceed (ps', st4)"
    and m4: "modelRequests (events st4) = modelRequests (events st3)"
    and t4: "length (toolCalls (events st4)) = length (toolCalls (events st3)) + length ?calls"
    and c4: "turnCount st4 = turnCount st3"
    using dispatchCalls_ok [OF assms(3), of pid ?calls "[]" st3] by blast
  have "turn env pid st = Proceed (st4\<lparr>currentMessages := [userTurn ps']\<rparr>)"
    using assms(4) rt c d ne by (simp add: turn_unfold dispatchTurn_def)
  moreover have "turnCount st4 = Suc (turnCount st)"
    using c4 c3 by (simp add: turnCount_simps)
  moreover have "length (modelRequests (events st4)) = Suc (length (modelRequests (events st)))"
    using m4 m3 by (simp add: events_tick events_emit modelRequests_append)
  moreover have "length (toolCalls (events st4)) > length (toolCalls (events st))"
    using t4 t3 ne by (simp add: events_tick events_emit toolCalls_append)
  ultimately show ?thesis by simp
qed

lemma whileLoop_budget:
  assumes "alwaysRequestsTool env pid" and "neverCancelled env" and "noFatalToolError env"
    and "getMaxSessionTurns env = int N" and "0 < N"
  shows "turnCount st \<le> N \<Longrightarrow>
         \<exists>st' evs. whileLoop env pid st = Some (Resolved, st') \<and>
           length (modelRequests (events st')) =
             length (modelRequests (events st)) + (N - turnCount st) \<and>
           length (toolCalls (events st')) \<ge> length (toolCalls (events st)) + (N - turnCount st) \<and>
           turnCount st' = Suc N \<and>
           events st' = evs @ [ConsoleError maxTurnsMessage] @ telemetryEvents env"
proof (induction "N - turnCount st" arbitrary: st)
  case 0
  then have "\<not> withinBudget env st"
    using assms(4,5) by (simp add: withinBudget_def)
  then have "whileLoop env pid st =
      Some (Resolved, finallyBlock env (consoleError maxTurnsMessage (st\<lparr>turnCount := turnCount st + 1\<rparr>)))"
    by (simp add: turn_budget_reached whileLoop_Returned)
  moreover have "events (finallyBlock env (consoleError maxTurnsMessage (st\<lparr>turnCount := turnCount st + 1\<rparr>)))
      = events st @ [ConsoleError maxTurnsMessage] @ telemetryEvents env"
    by (simp add: finallyBlock_def telemetryEvents_def events_emit events_consoleError)
  moreover have "turnCount (finallyBlock env (consoleError maxTurnsMessage (st\<lparr>turnCount := turnCount st + 1\<rparr>)))
      = Suc N"
    using 0 by (simp add: finallyBlock_def turnCount_simps)
  ultimately show ?case
    using 0 by (auto simp add: modelRequests_append toolCalls_append telemetryEvents_def)
next
  case (Suc k)
  then have "withinBudget env st"
    using assms(4,5) by (simp add: withinBudget_def)
  then obtain st1 where t: "turn env pid st = Proceed st1"
    and c1: "turnCount st1 = Suc (turnCount st)"
    and m1: "length (modelRequests (events st1)) = Suc (length (modelRequests (events st)))"
    and t1: "length (toolCalls (events st1)) > length (toolCalls (events st))"
    using turn_continues [OF assms(1-3)] by blast
  have "k = N - turnCount st1" "turnCount st1 \<le> N"
    using Suc.hyps(2) Suc.prems c1 by auto
  then obtain st' evs where "whileLoop env pid st1 = Some (Resolved, st')"
    "length (modelRequests (events st')) = length (modelRequests (events st1)) + (N - turnCount st1)"
    "length (toolCalls (events st')) \<ge> length (toolCalls (events st1)) + (N - turnCount st1)"
    "turnCount st' = Suc N"
    "events st' = evs @ [ConsoleError maxTurnsMessage] @ telemetryEvents env"
    using Suc.hyps(1) [of st1] by blast
  then show ?case
    using t c1 m1 t1 Suc.hyps(2) by (auto simp add: whileLoop_Proceed)
qed

lemma all_chunks: "list_all isChunk items \<Longrightarrow> \<exists>rs. items = map Chunk rs"
proof (induction items)
  case Nil
  show ?case by simp
next
  case (Cons item items)
  then obtain rs where "items = map Chunk rs" by auto
  moreover obtain r where "item = Chunk r"
    using Cons.prems by (cases item) (auto simp: isChunk_def)
  ultimately have "item # items = map Chunk (r # rs)" by simp
  then show ?case by (rule exI)
qed

lemma alwaysRequestsTool_from:
  assumes "requestsToolEveryTurn env pid" and "streamsEnd env pid"
  shows "alwaysRequestsTool env pid"
  unfolding alwaysRequestsTool_def
proof (intro allI)
  fix t msg
  obtain items where i: "sendMessageStream env t msg pid = Inr items"
    and ne: "concat (map chunkCalls items) \<noteq> []"
    using assms(1) unfolding requestsToolEveryTurn_def by blast
  have "list_all isChunk items"
    using assms(2) i unfolding streamsEnd_def by (metis sum.simps(6))
  then obtain rs where "items = map Chunk rs"
    using all_chunks by blast
  with i ne show "\<exists>rs. sendMessageStream env t msg pid = Inr (map Chunk rs) \<and>
                     concat (map chunkCalls (map Chunk rs)) \<noteq> []"
    by blast
qed

text \<open>
  C3, amended. With a turn budget of \<open>N > 0\<close> and a model client that asks for at least
  one tool on every turn, provided no stream throws and the dispatcher answers every call
  with no error other than a tool that is not in the registry, the run returns normally
  (no exit with an error status) after exactly \<open>N\<close> requests to the model, each followed
  by at least one dispatch; the turn counter stands at \<open>N + 1\<close>; the last line is the
  budget message on standard error, followed only by the shutdown of telemetry, if
  initialised.
\<close>

theorem turn_budget_stops:
  assumes "getMaxSessionTurns env = int N" and "0 < N"
    and "requestsToolEveryTurn env pid"
    and "streamsEnd env pid"
    and "noFatalToolError env"
  shows "\<exists>st' evs. runNonInteractive env input pid = Some (Resolved, st') \<and>
           length (modelRequests (events st')) = N \<and>
           N \<le> length (toolCalls (events st')) \<and>
           turnCount st' = Suc N \<and>
           events st' = evs @ [ConsoleError maxTurnsMessage] @ telemetryEvents env"
proof -
  let ?env = "env\<lparr>aborted := (\<lambda>t. False)\<rparr>"
  have a: "alwaysRequestsTool ?env pid"
    using alwaysRequestsTool_from [OF assms(3,4)] by (simp add: alwaysRequestsTool_def)
  have b: "neverCancelled ?env"
    by (simp add: neverCancelled_def)
  have c: "noFatalToolError ?env"
    using assms(5) by (simp add: noFatalToolError_def)
  have d: "getMaxSessionTurns ?env = int N"
    using assms(1) by simp
  have e: "telemetryEvents ?env = telemetryEvents env"
    by (simp add: telemetryEvents_def)
  show ?thesis
    using whileLoop_budget [OF a b c d assms(2), of "initialState input"] e
    by (simp add: runNonInteractive_def initialState_def)
qed

theorem turn_budget_stops_witness:
  "\<exists>st' evs. runNonInteractive envLoop ''go'' ''p'' = Some (Resolved, st') \<and>
      length (modelRequests (events st')) = 2 \<and>
      2 \<le> length (toolCalls (events st')) \<and>
      turnCount st' = 3 \<and>
      events st' = evs @ [ConsoleError maxTurnsMessage]"
proof -
  have h1: "getMaxSessionTurns envLoop = int 2"
    by (simp add: envLoop_def exEnv_def)
  have h2: "requestsToolEveryTurn envLoop ''p''"
    by (simp add: requestsToolEveryTurn_def envLoop_def exEnv_def chunkCalls_def exCallChunk_def)
  have h3: "streamsEnd envLoop ''p''"
    by (simp add: streamsEnd_def envLoop_def exEnv_def isChunk_def)
  have h4: "noFatalToolError envLoop"
    by (simp add: noFatalToolError_def envLoop_def exEnv_def exOkResponse_def)
  have t: "telemetryEvents envLoop = []"
    by (simp add: telemetryEvents_def envLoop_def exEnv_def)
  show ?thesis
    using turn_budget_stops [OF h1 _ h2 h3 h4, of "''go''"] t by simp
qed

text \<open>
  The claim as written fails in each of three runs with a budget of two turns and a model
  client that asks for a tool on every turn: when the tool call ends in another error,
  when the stream throws after the call, and when the dispatcher throws. Each time the
  process exits with status 1 in the first turn.
\<close>

theorem turn_budget_counterexample:
  "getMaxSessionTurns envLoopFatal = 2 \<and>
   requestsToolEveryTurn envLoopFatal ''p'' \<and>
   outcomeOf (runNonInteractive envLoopFatal ''go'' ''p'') = Some (ProcessExit 1) \<and>
   eventsOf (runNonInteractive envLoopFatal ''go'' ''p'') =
     [SendMessageStream [textPart ''go''],
      StdoutWrite (startLine ''12:00:00'' ''ls'' ''(no arguments)''),
      ExecuteToolCall \<lparr>callId = ''ls-1700000000000'', name = Some ''ls'', args = [],
                        isClientInitiated = False, prompt_id = ''p''\<rparr> (Inr exFatal),
      StdoutWrite (failedLine ''12:00:00'' ''ls'' ''permission denied''),
      ConsoleError ''Error executing tool ls: permission denied''] \<and>
   getMaxSessionTurns envLoopStreamThrows = 2 \<and>
   requestsToolEveryTurn envLoopStreamThrows ''p'' \<and>
   outcomeOf (runNonInteractive envLoopStreamThrows ''go'' ''p'') = Some (ProcessExit 1) \<and>
   eventsOf (runNonInteractive envLoopStreamThrows ''go'' ''p'') =
     [SendMessageStream [textPart ''go''], ConsoleError ''ECONNRESET''] \<and>
   getMaxSessionTurns envLoopToolThrows = 2 \<and>
   requestsToolEveryTurn envLoopToolThrows ''p'' \<and>
   outcomeOf (runNonInteractive envLoopToolThrows ''go'' ''p'') = Some (ProcessExit 1) \<and>
   eventsOf (runNonInteractive envLoopToolThrows ''go'' ''p'') =
     [SendMessageStream [textPart ''go''],
      StdoutWrite (startLine ''12:00:00'' ''ls'' ''(no arguments)''),
      ExecuteToolCall \<lparr>callId = ''ls-1700000000000'', name = Some ''ls'', args = [],
                        isClientInitiated = False, prompt_id = ''p''\<rparr> (Inl ''tool crashed''),
      ConsoleError ''tool crashed'']"
proof -
  have h1: "requestsToolEveryTurn envLoopFatal ''p''"
    by (simp add: requestsToolEveryTurn_def envLoopFatal_def envLoop_def exEnv_def chunkCalls_def
        exCallChunk_def)
  have h2: "requestsToolEveryTurn envLoopStreamThrows ''p''"
    by (simp add: requestsToolEveryTurn_def envLoopStreamThrows_def envLoop_def exEnv_def
        chunkCalls_def exCallChunk_def)
  have h3: "requestsToolEveryTurn envLoopToolThrows ''p''"
    by (simp add: requestsToolEveryTurn_def envLoopToolThrows_def envLoop_def exEnv_def
        chunkCalls_def exCallChunk_def)
  have r1: "runNonInteractive envLoopFatal ''go'' ''p'' =
      Some (ProcessExit 1,
        \<lparr>turnCount = 1, currentMessages = [userTurn [textPart ''go'']],
         events = [SendMessageStream [textPart ''go''],
            StdoutWrite (startLine ''12:00:00'' ''ls'' ''(no arguments)''),
            ExecuteToolCall \<lparr>callId = ''ls-1700000000000'', name = Some ''ls'', args = [],
                        isClientInitiated = False, prompt_id = ''p''\<rparr> (Inr exFatal),
            StdoutWrite (failedLine ''12:00:00'' ''ls'' ''permission denied''),
            ConsoleError ''Error executing tool ls: permission denied''],
         time = 7\<rparr>)"
    by (simp add: runNonInteractive_def whileLoop.simps driver_defs example_defs line_defs
        showNat_example)
  have r2: "runNonInteractive envLoopStreamThrows ''go'' ''p'' =
      Some (ProcessExit 1,
        \<lparr>turnCount = 1, currentMessages = [userTurn [textPart ''go'']],
         events = [SendMessageStream [textPart ''go''], ConsoleError ''ECONNRESET''],
         time = 3\<rparr>)"
    by (simp add: runNonInteractive_def whileLoop.simps driver_defs example_defs line_defs
        showNat_example)
  have r3: "runNonInteractive envLoopToolThrows ''go'' ''p'' =
      Some (ProcessExit 1,
        \<lparr>turnCount = 1, currentMessages = [userTurn [textPart ''go'']],
         events = [SendMessageStream [textPart ''go''],
            StdoutWrite (startLine ''12:00:00'' ''ls'' ''(no arguments)''),
            ExecuteToolCall \<lparr>callId = ''ls-1700000000000'', name = Some ''ls'', args = [],
                        isClientInitiated = False, prompt_id = ''p''\<rparr> (Inl ''tool crashed''),
            ConsoleError ''tool crashed''],
         time = 6\<rparr>)"
    by (simp add: runNonInteractive_def whileLoop.simps driver_defs example_defs line_defs
        showNat_example)
  show ?thesis
    using h1 h2 h3
    by (simp add: r1 r2 r3 outcomeOf_def eventsOf_def)
       (simp add: envLoopFatal_def envLoopStreamThrows_def envLoopToolThrows_def envLoop_def
          exEnv_def)
qed

subsection \<open>Synthesised call ids\<close>

text \<open>
  The decimal text of a number has no dash and determines the number, so the ids made for
  two calls without id agree exactly when the names agree and the clock gives the same
  millisecond at both readings.
\<close>

lemma digits_distinct: "distinct ''0123456789''"
  by simp

lemma digitChar_inj: "a < 10 \<Longrightarrow> b < 10 \<Longrightarrow> digitChar a = digitChar b \<Longrightarrow> a = b"
  using digits_distinct by (simp add: digitChar_def nth_eq_iff_index_eq del: distinct.simps)

lemma digitChar_not_dash: "d < 10 \<Longrightarrow> digitChar d \<noteq> CHR ''-''"
proof -
  assume "d < 10"
  then have "digitChar d \<in> set ''0123456789''"
    unfolding digitChar_def by (intro nth_mem) simp
  then show ?thesis by auto
qed

lemma showNat_not_Nil: "showNat n \<noteq> []"
  by (subst showNat.simps) simp

lemma showNat_no_dash: "CHR ''-'' \<notin> set (showNat n)"
proof (induction n rule: showNat.induct)
  case (1 n)
  show ?case
  proof (cases "n < 10")
    case True
    then show ?thesis
      using digitChar_not_dash [of n] by (subst showNat.simps) auto
  next
    case False
    then show ?thesis
      using 1 digitChar_not_dash [of "n mod 10"] by (subst showNat.simps) auto
  qed
qed

lemma showNat_inj: "showNat m = showNat n \<Longrightarrow> m = n"
proof (induction m arbitrary: n rule: showNat.induct)
  case (1 m)
  show ?case
  proof (cases "m < 10")
    case True
    note m = this
    show ?thesis
    proof (cases "n < 10")
      case True
      then show ?thesis
        using "1.prems" m digitChar_inj [of m n]
        by (simp add: showNat.simps [of m] showNat.simps [of n])
    next
      case False
      then show ?thesis
        using "1.prems" m showNat_not_Nil [of "n div 10"]
        by (simp add: showNat.simps [of m] showNat.simps [of n])
    qed
  next
    case False
    note m = this
    show ?thesis
    proof (cases "n < 10")
      case True
      then show ?thesis
        using "1.prems" m showNat_not_Nil [of "m div 10"]
        by (simp add: showNat.simps [of m] showNat.simps [of n])
    next
      case False
      then have "showNat (m div 10) = showNat (n div 10)" "digitChar (m mod 10) = digitChar (n mod 10)"
        using "1.prems" m by (simp_all add: showNat.simps [of m] showNat.simps [of n])
      then have "m div 10 = n div 10" "m mod 10 = n mod 10"
        using "1.IH" [OF m] digitChar_inj [of "m mod 10" "n mod 10"] by auto
      then show ?thesis
        by (metis div_mult_mod_eq)
    qed
  qed
qed

lemma first_occurrence_unique:
  "x \<notin> set p \<Longrightarrow> x \<notin> set q \<Longrightarrow> p @ x # a = q @ x # b \<Longrightarrow> p = q \<and> a = b"
proof (induction p arbitrary: q)
  case Nil
  then show ?case by (cases q) auto
next
  case (Cons c p)
  then show ?case by (cases q) auto
qed

lemma append_Cons_eq_suffix:
  assumes "x \<notin> set xs'" and "x \<notin> set ys'"
  shows "xs @ x # xs' = ys @ x # ys' \<longleftrightarrow> xs = ys \<and> xs' = ys'"
proof
  assume "xs @ x # xs' = ys @ x # ys'"
  then have "rev (xs @ x # xs') = rev (ys @ x # ys')"
    by simp
  then have "rev xs' @ x # rev xs = rev ys' @ x # rev ys"
    by simp
  then have "rev xs' = rev ys' \<and> rev xs = rev ys"
    using assms by (intro first_occurrence_unique) simp_all
  then show "xs = ys \<and> xs' = ys'"
    by simp
next
  assume "xs = ys \<and> xs' = ys'"
  then show "xs @ x # xs' = ys @ x # ys'"
    by simp
qed

lemma callId_collides_iff:
  assumes "fc_id fcA = None" and "fc_id fcB = None"
  shows "fst (makeCallId env fcA stA) = fst (makeCallId env fcB stB) \<longleftrightarrow>
         nameText fcA = nameText fcB \<and> dateNow env (time stA) = dateNow env (time stB)"
proof -
  have "nameText fcA @ CHR ''-'' # showNat (dateNow env (time stA)) =
        nameText fcB @ CHR ''-'' # showNat (dateNow env (time stB)) \<longleftrightarrow>
        nameText fcA = nameText fcB \<and>
        showNat (dateNow env (time stA)) = showNat (dateNow env (time stB))"
    by (intro append_Cons_eq_suffix showNat_no_dash)
  then show ?thesis
    using assms showNat_inj by (auto simp add: makeCallId_def)
qed

text \<open>
  C5 fails on the code. In one turn, two different calls of the same tool without an id,
  dispatched while the clock reads the same millisecond, get the same call id.
\<close>

theorem callId_collision:
  "exCallA \<noteq> exCallB \<and> fc_id exCallA = None \<and> fc_id exCallB = None \<and>
   map (callId \<circ> fst)
     (toolCalls (events (stateIn id (turn envEcho ''p'' (initialState ''go'')))))
   = [''ls-1700000000000'', ''ls-1700000000000'']"
  by (simp add: driver_defs example_defs showNat_example)

subsection \<open>Startup warnings\<close>

lemma homeDirectoryCheck_Inr:
  "\<exists>w. snd homeDirectoryCheck rt workspaceRoot = Inr w"
  by (simp add: homeDirectoryCheck_def split: sum.splits)

lemma nodeVersionCheck_Inr:
  "\<exists>w. snd nodeVersionCheck rt workspaceRoot = Inr w"
  by (simp add: nodeVersionCheck_def Let_def)

lemma homeDirectoryTry_fails:
  "realpathFails rt workspaceRoot \<Longrightarrow> isl (homeDirectoryTry rt workspaceRoot)"
  by (auto simp add: realpathFails_def homeDirectoryTry_def isl_def split: sum.splits)

text \<open>
  C10. The home-directory check never rejects: it resolves whatever the file system does,
  and when the home directory or one of the two real paths cannot be had, it resolves to
  the warning "Could not verify the current directory due to a file system error.". So
  the startup warnings resolve to the warning of the home-directory check, if any,
  followed by the warning of the node-version check, if any: at most two messages.
\<close>

theorem homeDirectoryCheck_never_raises:
  "(\<exists>w. snd homeDirectoryCheck rt workspaceRoot = Inr w) \<and>
   (realpathFails rt workspaceRoot \<longrightarrow>
      snd homeDirectoryCheck rt workspaceRoot =
        Inr (Some ''Could not verify the current directory due to a file system error.'')) \<and>
   getUserStartupWarnings rt workspaceRoot =
     Inr (warningOf homeDirectoryCheck rt workspaceRoot @ warningOf nodeVersionCheck rt workspaceRoot) \<and>
   length (warningOf homeDirectoryCheck rt workspaceRoot
           @ warningOf nodeVersionCheck rt workspaceRoot) \<le> 2"
proof -
  obtain h where h: "snd homeDirectoryCheck rt workspaceRoot = Inr h"
    using homeDirectoryCheck_Inr by blast
  obtain n where n: "snd nodeVersionCheck rt workspaceRoot = Inr n"
    using nodeVersionCheck_Inr by blast
  have fails: "snd homeDirectoryCheck rt workspaceRoot =
        Inr (Some ''Could not verify the current directory due to a file system error.'')"
    if "realpathFails rt workspaceRoot"
    using homeDirectoryTry_fails [OF that]
    by (auto simp add: homeDirectoryCheck_def isl_def)
  have "getUserStartupWarnings rt workspaceRoot =
     Inr (warningOf homeDirectoryCheck rt workspaceRoot @ warningOf nodeVersionCheck rt workspaceRoot)"
    using h n
    by (cases h; cases n) (simp_all add: getUserStartupWarnings_def WARNING_CHECKS_def warningOf_def)
  moreover have "length (warningOf homeDirectoryCheck rt workspaceRoot
           @ warningOf nodeVersionCheck rt workspaceRoot) \<le> 2"
    by (simp add: warningOf_def split: sum.splits option.splits)
  ultimately show ?thesis using h fails by blast
qed

theorem homeDirectoryCheck_never_raises_witness:
  "getUserStartupWarnings exRuntime ''/gone'' =
     Inr [''Could not verify the current directory due to a file system error.'',
          ''You are using Node.js v18.19.0. Gemini CLI requires Node.js 20 or higher for best results.'']"
proof -
  have f: "realpathFails exRuntime ''/gone''"
    by (simp add: realpathFails_def exRuntime_def)
  have n: "snd nodeVersionCheck exRuntime ''/gone'' =
     Inr (Some ''You are using Node.js v18.19.0. Gemini CLI requires Node.js 20 or higher for best results.'')"
    by (simp add: nodeVersionCheck_def exRuntime_def Let_def showNat.simps digitChar_def)
  show ?thesis
    using homeDirectoryCheck_never_raises [of exRuntime "''/gone''"] f n
    by (simp add: warningOf_def)
qed

end
